theory Spec2Isabelle
  imports Main
begin

section \<open>Go values: errors, panics, dynamically typed values\<close>

text \<open>
  A Go \<^verbatim>\<open>error\<close> is a value of \<open>goerr\<close>; the nil error is \<open>None\<close> of
  \<open>goerr option\<close>. Only the shapes the package builds or returns are kept:
  \<^item> \<open>ErrorString s\<close>: an opaque leaf error with text \<open>s\<close> (\<^verbatim>\<open>errors.New(s)\<close>, a driver
    error, or \<^verbatim>\<open>fmt.Errorf\<close> without \<^verbatim>\<open>%w\<close>);
  \<^item> \<open>ErrNoRows\<close>: the sentinel \<^verbatim>\<open>sql.ErrNoRows\<close>;
  \<^item> \<open>Errorf_w c e\<close>: \<^verbatim>\<open>fmt.Errorf(c + ": %w", e)\<close>, which wraps \<open>e\<close>;
  \<^item> \<open>ScanError i e\<close>: what \<^verbatim>\<open>Rows.Scan\<close> returns for column index \<open>i\<close>
    (\<^verbatim>\<open>sql: Scan error on column index %d, name %q: %w\<close>);
  \<^item> \<open>JoinError es\<close>: the result of \<^verbatim>\<open>errors.Join\<close> with non-nil members \<open>es\<close>.
  Go compares leaf errors by identity; the model compares them structurally.
\<close>

datatype goerr =
    ErrorString string
  | ErrNoRows
  | Errorf_w string goerr
  | ScanError nat goerr
  | JoinError "goerr list"

text \<open>A call either returns or panics; the panic carries the value given to \<^verbatim>\<open>panic\<close>.\<close>

datatype ('a, 'p) outcome = Return 'a | Panic 'p

text \<open>
  \<^verbatim>\<open>errors.Join(errs...)\<close>: nil members are discarded; the result is nil when none is left,
  and a join error over the remaining members otherwise (also when only one remains).
\<close>

definition errors_Join :: "goerr option list \<Rightarrow> goerr option" where
  "errors_Join errs =
     (let es = List.map_filter id errs
      in if es = [] then None else Some (JoinError es))"

text \<open>
  \<^verbatim>\<open>errors.Is(err, target)\<close>: \<open>err\<close> is the target, or one of the errors reached by
  unwrapping it is.
\<close>

fun errors_Is :: "goerr \<Rightarrow> goerr \<Rightarrow> bool"
  and errors_Is_any :: "goerr list \<Rightarrow> goerr \<Rightarrow> bool" where
  "errors_Is (ErrorString s) t = (ErrorString s = t)"
| "errors_Is ErrNoRows t = (ErrNoRows = t)"
| "errors_Is (Errorf_w c e) t = (Errorf_w c e = t \<or> errors_Is e t)"
| "errors_Is (ScanError i e) t = (ScanError i e = t \<or> errors_Is e t)"
| "errors_Is (JoinError es) t = (JoinError es = t \<or> errors_Is_any es t)"
| "errors_Is_any [] t = False"
| "errors_Is_any (e # es) t = (errors_Is e t \<or> errors_Is_any es t)"

text \<open>
  A value handed to \<^verbatim>\<open>panic\<close> by the callback is kept as its \<^verbatim>\<open>%v\<close> rendering;
  \<^verbatim>\<open>fmt.Errorf("%v", r)\<close> is then the leaf error with that text.
\<close>

datatype panicval = PanicValue string

fun fmt_Errorf_v :: "panicval \<Rightarrow> goerr" where
  "fmt_Errorf_v (PanicValue s) = ErrorString s"

text \<open>
  A \<^verbatim>\<open>reflect.Type\<close> is named by its string. A \<^verbatim>\<open>driver.Value\<close> is one of the values a
  driver hands to \<^verbatim>\<open>Scan\<close>. A value of type \<^verbatim>\<open>any\<close> is
  \<^item> \<open>NilValue\<close>: the nil interface (what \<^verbatim>\<open>make([]any, n)\<close> is filled with);
  \<^item> \<open>ReflectValue t\<close>: a \<^verbatim>\<open>reflect.Value\<close> holding the zero value of type \<open>t\<close>; it is a
    struct, neither a pointer nor settable;
  \<^item> \<open>Pointer t v\<close>: a pointer to a cell of type \<open>t\<close> that currently holds \<open>v\<close>.
\<close>

type_synonym gotype = string

datatype dval = DNull | DInt int | DBool bool | DString string

datatype goany = NilValue | ReflectValue gotype | Pointer gotype dval

definition reflect_Zero :: "gotype \<Rightarrow> goany" where
  "reflect_Zero t = ReflectValue t"

section \<open>The row cursor of database/sql\<close>

text \<open>
  \<open>column\<close> is \<^verbatim>\<open>*sql.ColumnType\<close> with the two methods the package calls.
  A \<open>result_set\<close> is what the driver holds for one executed query:
  \<^item> \<open>columns\<close>, and \<open>columns_err\<close>, the error of \<^verbatim>\<open>ColumnTypes\<close> if it fails;
  \<^item> \<open>stream\<close>, the rows the driver delivers, and \<open>stream_err\<close>, the driver error that ends
    the stream (none when it ends with \<^verbatim>\<open>io.EOF\<close>);
  \<^item> \<open>release_err\<close>, what the driver returns when the cursor is released.
  A query has one result set; the context is not modelled.
\<close>

record column =
  Name :: string
  ScanType :: gotype

record result_set =
  columns :: "column list"
  columns_err :: "goerr option"
  stream :: "dval list list"
  stream_err :: "goerr option"
  release_err :: "goerr option"

datatype rows_call = CallColumnTypes | CallNext | CallScan | CallClose | CallErr

text \<open>
  The field \<^verbatim>\<open>lasterr\<close> of \<^verbatim>\<open>sql.Rows\<close>: nil, \<^verbatim>\<open>io.EOF\<close> or another error.
  \<^verbatim>\<open>lasterrOrErrLocked(err)\<close> is \<^verbatim>\<open>lasterr\<close> when that is an error other than
  \<^verbatim>\<open>io.EOF\<close>, and \<open>err\<close> otherwise.
\<close>

datatype lasterr = LastNil | LastEOF | LastErr goerr

fun lasterrOrErr :: "lasterr \<Rightarrow> goerr option \<Rightarrow> goerr option" where
  "lasterrOrErr (LastErr e) err = Some e"
| "lasterrOrErr LastNil err = err"
| "lasterrOrErr LastEOF err = err"

fun as_lasterr :: "goerr option \<Rightarrow> lasterr" where
  "as_lasterr None = LastNil"
| "as_lasterr (Some e) = LastErr e"

text \<open>
  \<open>rows\<close> is \<^verbatim>\<open>*sql.Rows\<close>: the result set, the rows not yet delivered, the current row
  (\<^verbatim>\<open>lastcols\<close>), \<^verbatim>\<open>lasterr\<close>, the closed flag, the number of releases of the
  underlying cursor and the calls the package made so far, oldest first.
\<close>

record rows =
  rset :: result_set
  pending :: "dval list list"
  lastcols :: "dval list option"
  lasterr :: lasterr
  closed :: bool
  releases :: nat
  calls :: "rows_call list"

definition open_rows :: "result_set \<Rightarrow> rows" where
  "open_rows rsn =
     \<lparr>rset = rsn, pending = stream rsn, lastcols = None, lasterr = LastNil, closed = False,
      releases = 0, calls = []\<rparr>"

definition called :: "rows_call \<Rightarrow> rows \<Rightarrow> rows" where
  "called c r = r\<lparr>calls := calls r @ [c]\<rparr>"

definition Rows_ColumnTypes :: "rows \<Rightarrow> (goerr + column list) \<times> rows" where
  "Rows_ColumnTypes r =
     ((if closed r then
         (case lasterr r of
            LastErr e \<Rightarrow> Inl e
          | _ \<Rightarrow> Inl (ErrorString ''sql: Rows are closed''))
       else case columns_err (rset r) of
              Some e \<Rightarrow> Inl e
            | None \<Rightarrow> Inr (columns (rset r))),
      called CallColumnTypes r)"

text \<open>
  The unexported \<^verbatim>\<open>rs.close(nil)\<close>: on a closed cursor it does nothing and returns nil;
  otherwise it releases the cursor, records the release error in \<^verbatim>\<open>lasterr\<close> unless an
  error other than \<^verbatim>\<open>io.EOF\<close> is there already, and returns the release error.
  \<^verbatim>\<open>rows.Close()\<close> is that, so it is idempotent.
\<close>

definition rows_close :: "rows \<Rightarrow> goerr option \<times> rows" where
  "rows_close r =
     (if closed r then (None, r)
      else (release_err (rset r),
            r\<lparr>closed := True, releases := Suc (releases r),
              lasterr := as_lasterr (lasterrOrErr (lasterr r) (release_err (rset r)))\<rparr>))"

definition Rows_Close :: "rows \<Rightarrow> goerr option \<times> rows" where
  "Rows_Close r = (fst (rows_close r), called CallClose (snd (rows_close r)))"

text \<open>
  \<^verbatim>\<open>rows.Next()\<close>: false on a closed cursor. Otherwise the driver is asked for a row and
  its answer is stored in \<^verbatim>\<open>lasterr\<close>: nil with a row, \<^verbatim>\<open>io.EOF\<close> or the driver error at
  the end of the stream. At the end of the stream \<^verbatim>\<open>Next\<close> closes the cursor itself,
  dropping what the close returns, and returns false.
\<close>

definition Rows_Next :: "rows \<Rightarrow> bool \<times> rows" where
  "Rows_Next r =
     (if closed r then (False, called CallNext r)
      else case pending r of
             v # vs \<Rightarrow>
               (True, called CallNext (r\<lparr>pending := vs, lastcols := Some v, lasterr := LastNil\<rparr>))
           | [] \<Rightarrow>
               (False,
                called CallNext
                  (snd (rows_close
                     (r\<lparr>lasterr := (case stream_err (rset r) of
                                        None \<Rightarrow> LastEOF
                                      | Some e \<Rightarrow> LastErr e)\<rparr>)))))"

text \<open>
  \<^verbatim>\<open>convertAssignRows(dest, src, rows)\<close>: a destination that is not a pointer is refused
  with \<^verbatim>\<open>destination not a pointer\<close>. For a pointer the value is stored in the cell it
  points to; the conversions between driver values and cell types are not modelled.
\<close>

fun convertAssignRows :: "goany \<Rightarrow> dval \<Rightarrow> goerr + goany" where
  "convertAssignRows (Pointer t old) src = Inr (Pointer t src)"
| "convertAssignRows (ReflectValue t) src = Inl (ErrorString ''destination not a pointer'')"
| "convertAssignRows NilValue src = Inl (ErrorString ''destination not a pointer'')"

text \<open>The loop \<^verbatim>\<open>for i, sv := range rs.lastcols\<close> of \<^verbatim>\<open>Scan\<close>; it stops at the first error.\<close>

fun scan_columns :: "nat \<Rightarrow> goany list \<Rightarrow> dval list \<Rightarrow> goerr + goany list" where
  "scan_columns i dest [] = Inr dest"
| "scan_columns i dest (sv # svs) =
     (if i < length dest then
        (case convertAssignRows (dest ! i) sv of
           Inl err \<Rightarrow> Inl (ScanError i err)
         | Inr d \<Rightarrow> scan_columns (Suc i) (dest[i := d]) svs)
      else Inl (ErrorString ''index out of range''))"

text \<open>
  What \<^verbatim>\<open>Scan\<close> does with the current row \<open>svs\<close> once the state of the cursor allows it:
  the number of destinations is checked, then the columns are assigned.
\<close>

definition scan_row :: "goany list \<Rightarrow> dval list \<Rightarrow> goerr + goany list" where
  "scan_row dest svs =
     (if length dest \<noteq> length svs
      then Inl (ErrorString ''sql: expected destination arguments in Scan'')
      else scan_columns 0 dest svs)"

text \<open>
  \<^verbatim>\<open>rows.Scan(dest...)\<close>. Go returns only the error and writes through the pointers of
  \<open>dest\<close>; the model returns \<open>dest\<close> with the cells as they are after the call.
\<close>

definition Rows_Scan :: "rows \<Rightarrow> goany list \<Rightarrow> (goerr + goany list) \<times> rows" where
  "Rows_Scan r dest =
     ((case lasterr r of
         LastErr e \<Rightarrow> Inl e
       | _ \<Rightarrow>
           if closed r then Inl (ErrorString ''sql: Rows are closed'')
           else case lastcols r of
                  None \<Rightarrow> Inl (ErrorString ''sql: Scan called without calling Next'')
                | Some svs \<Rightarrow> scan_row dest svs),
      called CallScan r)"

text \<open>\<^verbatim>\<open>rows.Err()\<close>: \<^verbatim>\<open>lasterr\<close> unless that is nil or \<^verbatim>\<open>io.EOF\<close>.\<close>

definition Rows_Err :: "rows \<Rightarrow> goerr option \<times> rows" where
  "Rows_Err r = (lasterrOrErr (lasterr r) None, called CallErr r)"

section \<open>any.go\<close>

text \<open>\<^verbatim>\<open>type Any map[string]any\<close>\<close>

type_synonym Any = "string \<rightharpoonup> goany"

text \<open>
  The interface \<^verbatim>\<open>Tx\<close>, reduced to the method the package calls: \<^verbatim>\<open>QueryContext\<close> maps
  the query and its arguments to an error or to a result set, which \<open>open_rows\<close> turns into
  a fresh cursor. The context argument is not modelled.
\<close>

type_synonym Tx = "string \<Rightarrow> dval list \<Rightarrow> goerr + result_set"

text \<open>
  \<^verbatim>\<open>makeRs\<close>: \<^verbatim>\<open>make([]any, len(cols))\<close>, then \<^verbatim>\<open>res[pos] = reflect.Zero(col.ScanType())\<close>
  for each column.
\<close>

fun makeRs_range :: "nat \<Rightarrow> column list \<Rightarrow> goany list \<Rightarrow> goany list" where
  "makeRs_range pos [] res = res"
| "makeRs_range pos (col # cols) res =
     makeRs_range (Suc pos) cols (res[pos := reflect_Zero (ScanType col)])"

definition makeRs :: "column list \<Rightarrow> goany list" where
  "makeRs cols = makeRs_range 0 cols (replicate (length cols) NilValue)"

text \<open>
  \<^verbatim>\<open>makeAny\<close>: \<^verbatim>\<open>res[col.Name()] = values[pos]\<close> for each column; reading \<^verbatim>\<open>values\<close> out of
  range panics.
\<close>

fun makeAny_range :: "nat \<Rightarrow> column list \<Rightarrow> goany list \<Rightarrow> Any \<Rightarrow> (Any, string) outcome" where
  "makeAny_range pos [] vals res = Return res"
| "makeAny_range pos (col # cols) vals res =
     (if pos < length vals
      then makeAny_range (Suc pos) cols vals (res(Name col \<mapsto> vals ! pos))
      else Panic ''runtime error: index out of range'')"

definition makeAny :: "column list \<Rightarrow> goany list \<Rightarrow> (Any, string) outcome" where
  "makeAny cols vals = makeAny_range 0 cols vals Map.empty"

text \<open>
  The loop \<^verbatim>\<open>for rows.Next() { ... }\<close> of \<^verbatim>\<open>queryAnyRows\<close> with the accumulator \<open>res\<close>.
  \<open>Return (Inl err)\<close> is the \<^verbatim>\<open>return nil, err\<close> inside the loop, \<open>Return (Inr res)\<close> is
  leaving the loop (no further row, or \<^verbatim>\<open>break\<close> in single mode).
\<close>

function scan_rows ::
  "column list \<Rightarrow> bool \<Rightarrow> rows \<Rightarrow> Any list \<Rightarrow> (goerr + Any list, string) outcome \<times> rows" where
  "scan_rows cols single r res =
     (if \<not> fst (Rows_Next r) then (Return (Inr res), snd (Rows_Next r))
      else
        let r1 = snd (Rows_Next r);
            rs = makeRs cols;
            r2 = snd (Rows_Scan r1 rs)
        in case fst (Rows_Scan r1 rs) of
             Inl err \<Rightarrow> (Return (Inl (Errorf_w ''rows scanning'' err)), r2)
           | Inr rs' \<Rightarrow>
               (case makeAny cols rs' of
                  Panic p \<Rightarrow> (Panic p, r2)
                | Return a \<Rightarrow>
                    if single then (Return (Inr (res @ [a])), r2)
                    else scan_rows cols single r2 (res @ [a])))"
  by pat_completeness auto
termination
proof (relation "measure (\<lambda>(cols, single, r, res). length (pending r))")
  show "wf (measure (\<lambda>(cols, single, r, res). length (pending r)))"
    by simp
next
  fix cols :: "column list" and single :: bool and r :: rows and res :: "Any list"
    and r1 rs r2 x2 x1
  assume "\<not> \<not> fst (Rows_Next r)" and "r1 = snd (Rows_Next r)"
    and "r2 = snd (Rows_Scan r1 rs)"
  then show "((cols, single, r2, res @ [x1]), (cols, single, r, res))
      \<in> measure (\<lambda>(cols, single, r, res). length (pending r))"
    by (auto simp: Rows_Next_def Rows_Scan_def called_def split: if_splits list.splits)
qed

text \<open>
  Lines 57 to 81 of \<^verbatim>\<open>queryAnyRows\<close>: everything after the deferred close is registered.
\<close>

definition queryAnyRows_body ::
  "bool \<Rightarrow> rows \<Rightarrow> (goerr + Any list, string) outcome \<times> rows" where
  "queryAnyRows_body single r =
     (case Rows_ColumnTypes r of
        (Inl err, r1) \<Rightarrow> (Return (Inl (Errorf_w ''columns describing'' err)), r1)
      | (Inr cols, r1) \<Rightarrow>
          (case scan_rows cols single r1 [] of
             (Panic p, r2) \<Rightarrow> (Panic p, r2)
           | (Return (Inl err), r2) \<Rightarrow> (Return (Inl err), r2)
           | (Return (Inr res), r2) \<Rightarrow>
               (case Rows_Close r2 of
                  (Some err, r3) \<Rightarrow> (Return (Inl (Errorf_w ''rows closing'' err)), r3)
                | (None, r3) \<Rightarrow>
                    (case Rows_Err r3 of
                       (Some err, r4) \<Rightarrow> (Return (Inl (Errorf_w ''rows iterating'' err)), r4)
                     | (None, r4) \<Rightarrow> (Return (Inr res), r4)))))"

text \<open>
  \<^verbatim>\<open>queryAnyRows\<close>: the query, then the body, then the deferred
  \<^verbatim>\<open>_ = rows.Close()\<close>, which runs on every exit of the body and drops its error.
  The second component is the cursor as the call leaves it (none when the query failed).
\<close>

definition queryAnyRows ::
  "Tx \<Rightarrow> string \<Rightarrow> bool \<Rightarrow> dval list
    \<Rightarrow> (goerr + Any list, string) outcome \<times> rows option" where
  "queryAnyRows conn query single args =
     (case conn query args of
        Inl err \<Rightarrow> (Return (Inl (Errorf_w ''query executing'' err)), None)
      | Inr rsn \<Rightarrow>
          (case queryAnyRows_body single (open_rows rsn) of
             (out, r) \<Rightarrow> (out, Some (snd (Rows_Close r)))))"

definition QueryAnyRows ::
  "Tx \<Rightarrow> string \<Rightarrow> dval list \<Rightarrow> (goerr + Any list, string) outcome \<times> rows option" where
  "QueryAnyRows conn query args = queryAnyRows conn query False args"

definition QueryAny ::
  "Tx \<Rightarrow> string \<Rightarrow> dval list \<Rightarrow> (goerr + Any, string) outcome \<times> rows option" where
  "QueryAny conn query args =
     (case queryAnyRows conn query True args of
        (Panic p, r) \<Rightarrow> (Panic p, r)
      | (Return (Inl err), r) \<Rightarrow> (Return (Inl err), r)
      | (Return (Inr res), r) \<Rightarrow>
          (if length res = 0 then (Return (Inl ErrNoRows), r)
           else (Return (Inr (res ! 0)), r)))"

section \<open>tx.go\<close>

text \<open>
  \<open>sql_Tx\<close> is \<^verbatim>\<open>*sql.Tx\<close> as \<^verbatim>\<open>WithTx\<close> uses it: what \<^verbatim>\<open>Commit\<close> and \<^verbatim>\<open>Rollback\<close>
  return when called. \<^verbatim>\<open>BeginTx\<close> maps the isolation level to an error or a transaction.
  The callback sees the transaction through the interface \<^verbatim>\<open>Tx\<close>, which has neither
  method, so the calls on the transaction are those of \<^verbatim>\<open>WithTx\<close> itself.
\<close>

datatype IsolationLevel =
  LevelDefault | LevelReadUncommitted | LevelReadCommitted | LevelWriteCommitted
  | LevelRepeatableRead | LevelSnapshot | LevelSerializable | LevelLinearizable

record sql_Tx =
  Commit :: "goerr option"
  Rollback :: "goerr option"

datatype tx_call = CallCommit | CallRollback

type_synonym BeginTx = "IsolationLevel \<Rightarrow> goerr + sql_Tx"

text \<open>
  \<^verbatim>\<open>WithTx\<close>: the first component is what the call does (returns \<open>err\<close>, or panics with
  \<open>err\<close>), the second the calls it made on the transaction, in order.
\<close>

definition WithTx ::
  "BeginTx \<Rightarrow> (sql_Tx \<Rightarrow> (goerr option, panicval) outcome)
    \<Rightarrow> (goerr option, goerr option) outcome \<times> tx_call list" where
  "WithTx db f =
     (case db LevelSerializable of
        Inl err \<Rightarrow> (Return (Some err), [])
      | Inr tx \<Rightarrow>
          (case f tx of
             Panic r \<Rightarrow>
               (Panic (errors_Join [Some (fmt_Errorf_v r), Rollback tx]), [CallRollback])
           | Return (Some err) \<Rightarrow>
               (Return (errors_Join [Some err, Rollback tx]), [CallRollback])
           | Return None \<Rightarrow> (Return (Commit tx), [CallCommit])))"

section \<open>Opening the pool\<close>

text \<open>
  \<open>sql_DB\<close> is \<^verbatim>\<open>*sql.DB\<close>: the three settings \<^verbatim>\<open>Open\<close> writes and what \<^verbatim>\<open>PingContext\<close>
  returns under a timeout. Durations are nanoseconds. \<^verbatim>\<open>sql.Open\<close> is a parameter.
\<close>

record sql_DB =
  MaxOpenConns :: int
  MaxIdleConns :: int
  ConnMaxLifetime :: int
  PingContext :: "int \<Rightarrow> goerr option"

definition Open ::
  "(string \<Rightarrow> string \<Rightarrow> goerr + sql_DB) \<Rightarrow> string \<Rightarrow> string \<Rightarrow> int \<Rightarrow> int \<Rightarrow> int
    \<Rightarrow> goerr + sql_DB" where
  "Open sql_Open driverName dataSourceName maxConn maxLifetime pingTimeout =
     (case sql_Open driverName dataSourceName of
        Inl err \<Rightarrow> Inl (Errorf_w ''opening database'' err)
      | Inr db0 \<Rightarrow>
          (let db = db0\<lparr>MaxOpenConns := maxConn, MaxIdleConns := maxConn,
                        ConnMaxLifetime := maxLifetime\<rparr>
           in case PingContext db pingTimeout of
                Some err \<Rightarrow> Inl (Errorf_w ''pinging database'' err)
              | None \<Rightarrow> Inr db))"

section \<open>Scenarios\<close>

text \<open>A connection that answers every query with the given result set.\<close>

definition conn_of :: "result_set \<Rightarrow> Tx" where
  "conn_of rsn = (\<lambda>query args. Inr rsn)"

text \<open>The rows (1, "a") and (2, "b") under the columns \<open>id\<close> and \<open>name\<close>.\<close>

definition id_name_rows :: result_set where
  "id_name_rows =
     \<lparr>columns = [\<lparr>Name = ''id'', ScanType = ''int64''\<rparr>,
                 \<lparr>Name = ''name'', ScanType = ''string''\<rparr>],
      columns_err = None,
      stream = [[DInt 1, DString ''a''], [DInt 2, DString ''b'']],
      stream_err = None, release_err = None\<rparr>"

text \<open>The same columns and no row.\<close>

definition no_rows :: result_set where
  "no_rows = id_name_rows\<lparr>stream := []\<rparr>"

text \<open>Two rows of a result set without columns (\<^verbatim>\<open>SELECT FROM t\<close> in PostgreSQL).\<close>

definition unit_rows :: result_set where
  "unit_rows = id_name_rows\<lparr>columns := [], stream := [[], []]\<rparr>"

text \<open>
  The same rows when the context is cancelled right after the query: the columns cannot be
  described any more.
\<close>

definition canceled_rows :: result_set where
  "canceled_rows = id_name_rows\<lparr>columns_err := Some (ErrorString ''context canceled''),
      stream_err := Some (ErrorString ''context canceled'')\<rparr>"

text \<open>The same rows over a cursor whose release fails.\<close>

definition failing_close :: result_set where
  "failing_close = id_name_rows\<lparr>release_err := Some (ErrorString ''close failed'')\<rparr>"

text \<open>A pool whose probe fails.\<close>

definition unreachable_db :: sql_DB where
  "unreachable_db = \<lparr>MaxOpenConns = 0, MaxIdleConns = 2, ConnMaxLifetime = 0,
      PingContext = (\<lambda>timeout. Some (ErrorString ''context deadline exceeded''))\<rparr>"

text \<open>
  The outcome of the row loop of \<^verbatim>\<open>queryAnyRows\<close> on a fresh cursor over a result set
  whose columns were described.
\<close>

definition loop_outcome :: "bool \<Rightarrow> result_set \<Rightarrow> (goerr + Any list, string) outcome" where
  "loop_outcome single rsn =
     fst (scan_rows (columns rsn) single (snd (Rows_ColumnTypes (open_rows rsn))) [])"

section \<open>Facts about the helpers\<close>

declare scan_rows.simps [simp del]


lemma errors_Is_refl: "errors_Is e e"
  by (cases e) simp_all

lemma makeRs_range_eq:
  "length res = pos + length cols \<Longrightarrow>
   makeRs_range pos cols res = take pos res @ map (\<lambda>col. reflect_Zero (ScanType col)) cols"
proof (induction cols arbitrary: pos res)
  case Nil
  then show ?case by simp
next
  case (Cons col cols)
  have "makeRs_range (Suc pos) cols (res[pos := reflect_Zero (ScanType col)])
      = take (Suc pos) (res[pos := reflect_Zero (ScanType col)])
        @ map (\<lambda>col. reflect_Zero (ScanType col)) cols"
    using Cons.prems by (intro Cons.IH) simp
  moreover have "take (Suc pos) (res[pos := reflect_Zero (ScanType col)])
      = take pos res @ [reflect_Zero (ScanType col)]"
    using Cons.prems by (simp add: take_Suc_conv_app_nth)
  ultimately show ?case by simp
qed

lemma makeRs_eq: "makeRs cols = map (\<lambda>col. reflect_Zero (ScanType col)) cols"
  by (simp add: makeRs_def makeRs_range_eq)

lemma makeAny_range_dom:
  "makeAny_range pos cols vals res = Return a \<Longrightarrow> dom a = dom res \<union> set (map Name cols)"
  by (induction cols arbitrary: pos res) (auto split: if_splits)

lemma makeAny_range_total:
  "pos + length cols \<le> length vals \<Longrightarrow> \<exists>a. makeAny_range pos cols vals res = Return a"
  by (induction cols arbitrary: pos res) auto

lemma makeAny_dom: "makeAny cols vals = Return a \<Longrightarrow> dom a = set (map Name cols)"
  by (simp add: makeAny_def makeAny_range_dom)

lemma makeAny_total: "length cols \<le> length vals \<Longrightarrow> \<exists>a. makeAny cols vals = Return a"
  by (simp add: makeAny_def makeAny_range_total)

text \<open>A scan into the targets of \<^verbatim>\<open>makeRs\<close> succeeds only when there is no column.\<close>

lemma scan_row_makeRs:
  assumes "scan_row (makeRs cols) svs = Inr rs"
  shows "cols = [] \<and> rs = []"
proof (cases cols)
  case Nil
  with assms show ?thesis
    by (auto simp: scan_row_def makeRs_eq split: if_splits)
next
  case (Cons col cols')
  from assms have len: "length svs = length cols"
    and sc: "scan_columns 0 (makeRs cols) svs = Inr rs"
    by (auto simp: scan_row_def makeRs_eq split: if_splits)
  from len Cons obtain sv svs' where "svs = sv # svs'"
    by (cases svs) auto
  with sc Cons show ?thesis
    by (simp add: makeRs_eq reflect_Zero_def)
qed

lemma scan_row_makeRs_fails:
  "length svs = length (col # cols) \<Longrightarrow>
   scan_row (makeRs (col # cols)) svs
     = Inl (ScanError 0 (ErrorString ''destination not a pointer''))"
  by (cases svs) (simp_all add: scan_row_def makeRs_eq reflect_Zero_def)

lemma Rows_Scan_makeRs:
  "fst (Rows_Scan r (makeRs cols)) = Inr rs \<Longrightarrow> cols = [] \<and> rs = []"
  by (auto simp: Rows_Scan_def dest: scan_row_makeRs
      split: lasterr.splits if_splits option.splits)

lemma Rows_Scan_state:
  "snd (Rows_Scan r dest) = called CallScan r"
  by (simp add: Rows_Scan_def)

text \<open>\<^verbatim>\<open>Next\<close> with a row, and \<^verbatim>\<open>Next\<close> at the end of the stream.\<close>

lemma Rows_Next_row:
  assumes "fst (Rows_Next r)"
  obtains v vs where "\<not> closed r" "pending r = v # vs"
    "snd (Rows_Next r) =
       called CallNext (r\<lparr>pending := vs, lastcols := Some v, lasterr := LastNil\<rparr>)"
  using assms by (auto simp: Rows_Next_def split: if_splits list.splits)

lemma Rows_Next_end:
  assumes "\<not> fst (Rows_Next r)" and "\<not> closed r"
  shows "pending r = []" and "closed (snd (Rows_Next r))"
    and "releases (snd (Rows_Next r)) = Suc (releases r)"
    and "lasterr (snd (Rows_Next r)) =
       as_lasterr (case stream_err (rset r) of Some e \<Rightarrow> Some e | None \<Rightarrow> release_err (rset r))"
  using assms
  by (auto simp: Rows_Next_def rows_close_def called_def split: list.splits option.splits)

lemma Rows_Next_state:
  "rset (snd (Rows_Next r)) = rset r" "calls (snd (Rows_Next r)) = calls r @ [CallNext]"
  by (simp_all add: Rows_Next_def rows_close_def called_def split: list.splits)

lemma Rows_Next_pending:
  "fst (Rows_Next r) \<Longrightarrow> length (pending (snd (Rows_Next r))) < length (pending r)"
  by (auto simp: Rows_Next_def called_def split: if_splits list.splits)

text \<open>The scan of the row \<^verbatim>\<open>Next\<close> has just delivered.\<close>

lemma Rows_Scan_row:
  assumes "fst (Rows_Next r)"
  obtains v vs where "pending r = v # vs"
    "fst (Rows_Scan (snd (Rows_Next r)) dest) = scan_row dest v"
proof -
  from assms obtain v vs where "\<not> closed r" "pending r = v # vs"
    "snd (Rows_Next r) =
       called CallNext (r\<lparr>pending := vs, lastcols := Some v, lasterr := LastNil\<rparr>)"
    by (rule Rows_Next_row)
  then show ?thesis
    by (intro that [of v vs]) (simp_all add: Rows_Scan_def called_def)
qed

lemma scan_rows_cases [case_names stop scan_error panic last more]:
  obtains
    (stop) "\<not> fst (Rows_Next r)"
      "scan_rows cols single r res = (Return (Inr res), snd (Rows_Next r))"
  | (scan_error) e where "fst (Rows_Next r)"
      "fst (Rows_Scan (snd (Rows_Next r)) (makeRs cols)) = Inl e"
      "scan_rows cols single r res =
         (Return (Inl (Errorf_w ''rows scanning'' e)), called CallScan (snd (Rows_Next r)))"
  | (panic) rs p where "fst (Rows_Next r)"
      "fst (Rows_Scan (snd (Rows_Next r)) (makeRs cols)) = Inr rs"
      "makeAny cols rs = Panic p"
      "scan_rows cols single r res = (Panic p, called CallScan (snd (Rows_Next r)))"
  | (last) rs a where "single" "fst (Rows_Next r)"
      "fst (Rows_Scan (snd (Rows_Next r)) (makeRs cols)) = Inr rs"
      "makeAny cols rs = Return a"
      "scan_rows cols single r res =
         (Return (Inr (res @ [a])), called CallScan (snd (Rows_Next r)))"
  | (more) rs a where "\<not> single" "fst (Rows_Next r)"
      "fst (Rows_Scan (snd (Rows_Next r)) (makeRs cols)) = Inr rs"
      "makeAny cols rs = Return a"
      "scan_rows cols single r res =
         scan_rows cols single (called CallScan (snd (Rows_Next r))) (res @ [a])"
proof (cases "fst (Rows_Next r)")
  case False
  then show ?thesis
    using stop by (simp add: scan_rows.simps [of cols single r res])
next
  case nxt: True
  show ?thesis
  proof (cases "fst (Rows_Scan (snd (Rows_Next r)) (makeRs cols))")
    case (Inl e)
    with nxt show ?thesis
      using scan_error [of e]
      by (simp add: scan_rows.simps [of cols single r res] Let_def Rows_Scan_state)
  next
    case (Inr rs)
    show ?thesis
    proof (cases "makeAny cols rs")
      case (Panic p)
      with nxt Inr show ?thesis
        using panic [of rs p]
        by (simp add: scan_rows.simps [of cols single r res] Let_def Rows_Scan_state)
    next
      case (Return a)
      with nxt Inr have eq: "scan_rows cols single r res =
          (if single then (Return (Inr (res @ [a])), called CallScan (snd (Rows_Next r)))
           else scan_rows cols single (called CallScan (snd (Rows_Next r))) (res @ [a]))"
        by (simp add: scan_rows.simps [of cols single r res] Let_def Rows_Scan_state)
      show ?thesis
      proof (cases single)
        case True
        with eq nxt Inr Return show ?thesis
          by (intro last [of rs a]) simp_all
      next
        case False
        with eq nxt Inr Return show ?thesis
          by (intro more [of rs a]) simp_all
      qed
    qed
  qed
qed

lemma scan_rows_induct_rows [case_names step]:
  assumes "\<And>r res.
     (\<And>rs a. \<not> single \<Longrightarrow> fst (Rows_Next r) \<Longrightarrow>
        fst (Rows_Scan (snd (Rows_Next r)) (makeRs cols)) = Inr rs \<Longrightarrow>
        makeAny cols rs = Return a \<Longrightarrow>
        P (called CallScan (snd (Rows_Next r))) (res @ [a])) \<Longrightarrow> P r res"
  shows "P r res"
proof (induction "length (pending r)" arbitrary: r res rule: less_induct)
  case (less r res)
  show ?case
  proof (rule assms)
    fix rs a
    assume "fst (Rows_Next r)" and "makeAny cols rs = Return a"
    then have "length (pending (called CallScan (snd (Rows_Next r)))) < length (pending r)"
      using Rows_Next_pending [of r] by (simp add: called_def)
    then show "P (called CallScan (snd (Rows_Next r))) (res @ [a])"
      by (rule less)
  qed
qed


lemma scan_rows_state:
  "rset (snd (scan_rows cols single r res)) = rset r"
proof (induction r res rule: scan_rows_induct_rows [where cols = cols and single = single])
  case (step r res)
  show ?case
  proof (cases rule: scan_rows_cases [where r = r and cols = cols and single = single and res = res])
    case (more rs a)
    with step [of rs a] show ?thesis
      by (simp add: Rows_Next_state called_def)
  qed (simp_all add: Rows_Next_state called_def)
qed

lemma scan_rows_calls:
  "\<exists>cs. calls (snd (scan_rows cols single r res)) = calls r @ cs \<and>
        CallClose \<notin> set cs \<and> CallErr \<notin> set cs \<and> CallColumnTypes \<notin> set cs"
proof (induction r res rule: scan_rows_induct_rows [where cols = cols and single = single])
  case (step r res)
  show ?case
  proof (cases rule: scan_rows_cases [where r = r and cols = cols and single = single and res = res])
    case (more rs a)
    from step [OF more(1-4)] obtain cs where
      "calls (snd (scan_rows cols single r res)) = calls r @ [CallNext, CallScan] @ cs"
      "CallClose \<notin> set cs" "CallErr \<notin> set cs" "CallColumnTypes \<notin> set cs"
      using more(5) by (auto simp: Rows_Next_state called_def)
    then show ?thesis
      by (intro exI [of _ "[CallNext, CallScan] @ cs"]) simp
  qed (simp_all add: Rows_Next_state called_def)
qed

text \<open>
  An error of the loop is the error of the scan of one of the rows, under
  \<^verbatim>\<open>rows scanning\<close>.
\<close>

lemma scan_rows_error:
  "fst (scan_rows cols single r res) = Return (Inl err) \<Longrightarrow>
   \<exists>cause row. row \<in> set (pending r) \<and> scan_row (makeRs cols) row = Inl cause \<and>
      err = Errorf_w ''rows scanning'' cause"
proof (induction r res rule: scan_rows_induct_rows [where cols = cols and single = single])
  case (step r res)
  show ?case
  proof (cases rule: scan_rows_cases [where r = r and cols = cols and single = single and res = res])
    case (scan_error e)
    from scan_error(1) obtain v vs where "pending r = v # vs"
      "fst (Rows_Scan (snd (Rows_Next r)) (makeRs cols)) = scan_row (makeRs cols) v"
      by (rule Rows_Scan_row)
    with scan_error step.prems show ?thesis by auto
  next
    case (more rs a)
    from more(2) obtain v vs where r: "\<not> closed r" "pending r = v # vs"
      "snd (Rows_Next r) =
         called CallNext (r\<lparr>pending := vs, lastcols := Some v, lasterr := LastNil\<rparr>)"
      by (rule Rows_Next_row)
    from step.prems more(5) step.IH [OF more(1-4)] obtain cause row where
      "row \<in> set (pending (called CallScan (snd (Rows_Next r))))"
      "scan_row (makeRs cols) row = Inl cause" "err = Errorf_w ''rows scanning'' cause"
      by auto
    with r show ?thesis by (auto simp: called_def)
  qed (use step.prems in simp_all)
qed

text \<open>In single mode the loop calls \<^verbatim>\<open>Next\<close> once and \<^verbatim>\<open>Scan\<close> at most once.\<close>

lemma scan_rows_single_calls:
  "calls (snd (scan_rows cols True r res)) = calls r @ [CallNext] \<or>
   calls (snd (scan_rows cols True r res)) = calls r @ [CallNext, CallScan]"
  by (cases rule: scan_rows_cases [where r = r and cols = cols and single = True and res = res])
    (simp_all add: Rows_Next_state called_def)

text \<open>With a column no row is ever added to the result.\<close>

lemma scan_rows_no_record:
  assumes "fst (scan_rows cols single r res) = Return (Inr recs)" and "cols \<noteq> []"
  shows "recs = res"
proof (cases rule: scan_rows_cases [where r = r and cols = cols and single = single and res = res])
  case stop
  with assms show ?thesis by simp
next
  case (last rs a)
  with assms(2) Rows_Scan_makeRs [OF last(3)] show ?thesis by simp
next
  case (more rs a)
  with assms(2) Rows_Scan_makeRs [OF more(3)] show ?thesis by simp
qed (use assms in simp_all)

text \<open>
  The cursor when the loop is left. When \<^verbatim>\<open>Next\<close> returned false the cursor has been
  closed by \<^verbatim>\<open>Next\<close>, and \<^verbatim>\<open>lasterr\<close> holds the error that ended the stream or else the
  release error. After an error, a panic or the \<^verbatim>\<open>break\<close> of single mode it is still open.
\<close>

lemma scan_rows_end:
  "\<not> closed r \<Longrightarrow> fst (scan_rows cols single r res) = Return (Inr recs) \<Longrightarrow>
   (single \<longrightarrow> pending r = []) \<Longrightarrow>
   closed (snd (scan_rows cols single r res)) \<and>
   releases (snd (scan_rows cols single r res)) = Suc (releases r) \<and>
   lasterr (snd (scan_rows cols single r res)) =
     as_lasterr (case stream_err (rset r) of Some e \<Rightarrow> Some e | None \<Rightarrow> release_err (rset r))"
proof (induction r res rule: scan_rows_induct_rows [where cols = cols and single = single])
  case (step r res)
  show ?case
  proof (cases rule: scan_rows_cases [where r = r and cols = cols and single = single and res = res])
    case stop
    with step.prems(1) Rows_Next_end [of r] show ?thesis by simp
  next
    case (last rs a)
    from last(2) obtain v vs where "pending r = v # vs"
      by (rule Rows_Next_row)
    with last(1) step.prems(3) show ?thesis by simp
  next
    case (more rs a)
    from more(2) obtain v vs where r: "\<not> closed r" "pending r = v # vs"
      "snd (Rows_Next r) =
         called CallNext (r\<lparr>pending := vs, lastcols := Some v, lasterr := LastNil\<rparr>)"
      by (rule Rows_Next_row)
    have "\<not> closed (called CallScan (snd (Rows_Next r)))"
      using r by (simp add: called_def)
    moreover have "fst (scan_rows cols single (called CallScan (snd (Rows_Next r))) (res @ [a]))
        = Return (Inr recs)"
      using step.prems(2) more(5) by simp
    moreover have "single \<longrightarrow> pending (called CallScan (snd (Rows_Next r))) = []"
      using more(1) by simp
    ultimately show ?thesis
      using step.IH [OF more(1-4)] more(5) r by (simp add: called_def split: option.splits)
  qed (use step.prems in simp_all)
qed

lemma scan_rows_open:
  "\<not> closed r \<Longrightarrow>
   (\<forall>recs. fst (scan_rows cols single r res) \<noteq> Return (Inr recs)) \<or> single \<and> pending r \<noteq> [] \<Longrightarrow>
   \<not> closed (snd (scan_rows cols single r res)) \<and>
   releases (snd (scan_rows cols single r res)) = releases r"
proof (induction r res rule: scan_rows_induct_rows [where cols = cols and single = single])
  case (step r res)
  show ?case
  proof (cases rule: scan_rows_cases [where r = r and cols = cols and single = single and res = res])
    case stop
    with step.prems Rows_Next_end(1) [of r] show ?thesis by auto
  next
    case (more rs a)
    from more(2) obtain v vs where r: "\<not> closed r" "pending r = v # vs"
      "snd (Rows_Next r) =
         called CallNext (r\<lparr>pending := vs, lastcols := Some v, lasterr := LastNil\<rparr>)"
      by (rule Rows_Next_row)
    have "\<not> closed (called CallScan (snd (Rows_Next r)))"
      using r by (simp add: called_def)
    moreover have "\<forall>recs. fst (scan_rows cols single (called CallScan (snd (Rows_Next r)))
        (res @ [a])) \<noteq> Return (Inr recs)"
      using step.prems(2) more(1,5) by simp
    ultimately show ?thesis
      using step.IH [OF more(1-4)] more(5) r by (simp add: called_def)
  next
    case (scan_error e)
    from scan_error(1) obtain v vs where "\<not> closed r" "pending r = v # vs"
      "snd (Rows_Next r) =
         called CallNext (r\<lparr>pending := vs, lastcols := Some v, lasterr := LastNil\<rparr>)"
      by (rule Rows_Next_row)
    with scan_error show ?thesis by (simp add: called_def)
  next
    case (panic rs p)
    from panic(1) obtain v vs where "\<not> closed r" "pending r = v # vs"
      "snd (Rows_Next r) =
         called CallNext (r\<lparr>pending := vs, lastcols := Some v, lasterr := LastNil\<rparr>)"
      by (rule Rows_Next_row)
    with panic show ?thesis by (simp add: called_def)
  next
    case (last rs a)
    from last(2) obtain v vs where "\<not> closed r" "pending r = v # vs"
      "snd (Rows_Next r) =
         called CallNext (r\<lparr>pending := vs, lastcols := Some v, lasterr := LastNil\<rparr>)"
      by (rule Rows_Next_row)
    with last show ?thesis by (simp add: called_def)
  qed
qed

lemma scan_rows_break:
  assumes "fst (scan_rows cols True r res) = Return (Inr recs)" and "pending r \<noteq> []"
    and "\<not> closed r"
  shows "lasterr (snd (scan_rows cols True r res)) = LastNil"
proof (cases rule: scan_rows_cases [where r = r and cols = cols and single = True and res = res])
  case stop
  with assms Rows_Next_end(1) [of r] show ?thesis by simp
next
  case (last rs a)
  from last(2) obtain v vs where "\<not> closed r" "pending r = v # vs"
    "snd (Rows_Next r) =
       called CallNext (r\<lparr>pending := vs, lastcols := Some v, lasterr := LastNil\<rparr>)"
    by (rule Rows_Next_row)
  with last show ?thesis by (simp add: called_def)
qed (use assms in simp_all)

lemmas rows_defs = open_rows_def Rows_ColumnTypes_def Rows_Next_def Rows_Scan_def scan_row_def
  rows_close_def Rows_Close_def Rows_Err_def called_def

text \<open>
  With at least one column, the scan of the first row fails: the targets \<^verbatim>\<open>makeRs\<close>
  allocates are \<^verbatim>\<open>reflect.Value\<close>s, not pointers.
\<close>

lemma queryAnyRows_scan_fails:
  assumes "conn query args = Inr rsn" and "columns_err rsn = None"
    and "columns rsn = col # cols" and "stream rsn = row # rest"
    and "length row = length (columns rsn)"
  shows "fst (queryAnyRows conn query single args) =
    Return (Inl (Errorf_w ''rows scanning''
      (ScanError 0 (ErrorString ''destination not a pointer''))))"
proof -
  obtain sv svs where row: "row = sv # svs"
    using assms(3,5) by (cases row) auto
  show ?thesis
    using assms row
    by (simp add: queryAnyRows_def queryAnyRows_body_def rows_defs makeRs_eq reflect_Zero_def
        scan_rows.simps [of "col # cols"])
qed

lemma loop_no_rows:
  "stream rsn = [] \<Longrightarrow> loop_outcome single rsn = Return (Inr [])"
  by (simp add: loop_outcome_def rows_defs scan_rows.simps)

lemma queryAnyRows_no_rows:
  assumes "conn query args = Inr rsn" and "columns_err rsn = None" and "stream rsn = []"
    and "release_err rsn = None" and "stream_err rsn = None"
  shows "fst (queryAnyRows conn query single args) = Return (Inr [])"
  using assms
  by (simp add: queryAnyRows_def queryAnyRows_body_def rows_defs scan_rows.simps)

text \<open>The paths of \<^verbatim>\<open>queryAnyRows\<close> once the query has executed.\<close>

lemma queryAnyRows_columns_fail:
  assumes "conn query args = Inr rsn" and "columns_err rsn = Some e"
  obtains r where "queryAnyRows conn query single args =
      (Return (Inl (Errorf_w ''columns describing'' e)), Some r)"
    "closed r" "releases r = 1" "calls r = [CallColumnTypes, CallClose]"
  using assms by (simp add: queryAnyRows_def queryAnyRows_body_def rows_defs)

text \<open>The cursor when the row loop is left.\<close>

lemma loop_exit:
  obtains r2 cs where
    "scan_rows (columns rsn) single (called CallColumnTypes (open_rows rsn)) []
       = (loop_outcome single rsn, r2)"
    "rset r2 = rsn" "calls r2 = CallColumnTypes # cs"
    "CallClose \<notin> set cs" "CallErr \<notin> set cs"
proof -
  let ?r1 = "called CallColumnTypes (open_rows rsn)"
  let ?l = "scan_rows (columns rsn) single ?r1 []"
  obtain cs where cs: "calls (snd ?l) = calls ?r1 @ cs" "CallClose \<notin> set cs" "CallErr \<notin> set cs"
    using scan_rows_calls [of "columns rsn" single ?r1 "[]"] by blast
  show ?thesis
  proof (rule that [of "snd ?l" cs])
    show "?l = (loop_outcome single rsn, snd ?l)"
      by (simp add: loop_outcome_def Rows_ColumnTypes_def)
    show "rset (snd ?l) = rsn"
      by (simp add: scan_rows_state open_rows_def called_def)
    show "calls (snd ?l) = CallColumnTypes # cs"
      using cs(1) by (simp add: open_rows_def called_def)
  qed (fact cs(2) cs(3))+
qed

lemma loop_exit_open:
  assumes "scan_rows (columns rsn) single (called CallColumnTypes (open_rows rsn)) []
       = (loop_outcome single rsn, r2)"
    and "(\<forall>res. loop_outcome single rsn \<noteq> Return (Inr res)) \<or> single \<and> stream rsn \<noteq> []"
  shows "\<not> closed r2" and "releases r2 = 0"
  using scan_rows_open [of "called CallColumnTypes (open_rows rsn)" "columns rsn" single "[]"]
    assms
  by (simp_all add: open_rows_def called_def)

lemma loop_exit_break:
  assumes "scan_rows (columns rsn) True (called CallColumnTypes (open_rows rsn)) []
       = (Return (Inr res), r2)"
    and "stream rsn \<noteq> []"
  shows "lasterr r2 = LastNil"
  using scan_rows_break [of "columns rsn" "called CallColumnTypes (open_rows rsn)" "[]" res]
    assms
  by (simp add: open_rows_def called_def)

lemma loop_exit_end:
  assumes "scan_rows (columns rsn) single (called CallColumnTypes (open_rows rsn)) []
       = (Return (Inr res), r2)"
    and "single \<longrightarrow> stream rsn = []"
  shows "closed r2" and "releases r2 = 1"
    and "lasterr r2 =
      as_lasterr (case stream_err rsn of Some e \<Rightarrow> Some e | None \<Rightarrow> release_err rsn)"
  using scan_rows_end [of "called CallColumnTypes (open_rows rsn)" "columns rsn" single "[]" res]
    assms
  by (simp_all add: open_rows_def called_def split: option.splits)

lemma Rows_ColumnTypes_open:
  "columns_err rsn = None \<Longrightarrow>
   Rows_ColumnTypes (open_rows rsn) = (Inr (columns rsn), called CallColumnTypes (open_rows rsn))"
  by (simp add: Rows_ColumnTypes_def open_rows_def)

lemma queryAnyRows_loop_fail:
  assumes "conn query args = Inr rsn" and "columns_err rsn = None"
    and "\<And>res. loop_outcome single rsn \<noteq> Return (Inr res)"
  obtains r pre where "queryAnyRows conn query single args = (loop_outcome single rsn, Some r)"
    "closed r" "releases r = 1" "calls r = pre @ [CallClose]"
    "CallClose \<notin> set pre" "CallErr \<notin> set pre"
proof -
  obtain r2 cs where l: "scan_rows (columns rsn) single (called CallColumnTypes (open_rows rsn)) []
       = (loop_outcome single rsn, r2)"
    "rset r2 = rsn" "calls r2 = CallColumnTypes # cs"
    "CallClose \<notin> set cs" "CallErr \<notin> set cs"
    by (rule loop_exit)
  from assms(3) have o: "\<not> closed r2" "releases r2 = 0"
    using loop_exit_open [OF l(1)] by simp_all
  have "queryAnyRows_body single (open_rows rsn) = (loop_outcome single rsn, r2)"
    using assms(3) l(1) Rows_ColumnTypes_open [OF assms(2)]
    by (cases "loop_outcome single rsn")
      (auto simp: queryAnyRows_body_def split: sum.splits)
  then have "queryAnyRows conn query single args
      = (loop_outcome single rsn, Some (snd (Rows_Close r2)))"
    using assms(1) by (simp add: queryAnyRows_def)
  then show ?thesis
    using l o by (intro that [of "snd (Rows_Close r2)" "CallColumnTypes # cs"])
      (simp_all add: Rows_Close_def rows_close_def called_def)
qed

text \<open>
  The loop was left because \<^verbatim>\<open>Next\<close> returned false: the cursor is closed already, the
  explicit \<^verbatim>\<open>Close\<close> returns nil, and \<^verbatim>\<open>Err\<close> reports the error that ended the stream,
  or else the release error.
\<close>

lemma queryAnyRows_loop_end:
  assumes "conn query args = Inr rsn" and "columns_err rsn = None"
    and "loop_outcome single rsn = Return (Inr res)" and "single \<longrightarrow> stream rsn = []"
  obtains r pre where "snd (queryAnyRows conn query single args) = Some r"
    "closed r" "releases r = 1" "calls r = pre @ [CallClose, CallErr, CallClose]"
    "CallClose \<notin> set pre" "CallErr \<notin> set pre"
    "fst (queryAnyRows conn query single args) =
       (case stream_err rsn of
          Some e \<Rightarrow> Return (Inl (Errorf_w ''rows iterating'' e))
        | None \<Rightarrow>
            (case release_err rsn of
               Some e \<Rightarrow> Return (Inl (Errorf_w ''rows iterating'' e))
             | None \<Rightarrow> Return (Inr res)))"
proof -
  obtain r2 cs where l: "scan_rows (columns rsn) single (called CallColumnTypes (open_rows rsn)) []
       = (loop_outcome single rsn, r2)"
    "rset r2 = rsn" "calls r2 = CallColumnTypes # cs"
    "CallClose \<notin> set cs" "CallErr \<notin> set cs"
    by (rule loop_exit)
  from l(1) assms(3) have l1:
    "scan_rows (columns rsn) single (called CallColumnTypes (open_rows rsn)) []
       = (Return (Inr res), r2)"
    by simp
  note e = loop_exit_end [OF l1 assms(4)]
  define final where
    "final = (case stream_err rsn of Some e \<Rightarrow> Some e | None \<Rightarrow> release_err rsn)"
  have close2: "Rows_Close r2 = (None, called CallClose r2)"
    using e by (simp add: Rows_Close_def rows_close_def)
  have err3: "Rows_Err (called CallClose r2) = (final, called CallErr (called CallClose r2))"
    using e(3) by (cases final) (simp_all add: Rows_Err_def called_def final_def)
  have body: "queryAnyRows_body single (open_rows rsn) =
      (case final of
         Some e \<Rightarrow> Return (Inl (Errorf_w ''rows iterating'' e))
       | None \<Rightarrow> Return (Inr res),
       called CallErr (called CallClose r2))"
    using l1 Rows_ColumnTypes_open [OF assms(2)] close2 err3
    by (simp add: queryAnyRows_body_def split: option.splits)
  let ?r = "snd (Rows_Close (called CallErr (called CallClose r2)))"
  have q: "queryAnyRows conn query single args =
      (case final of
         Some e \<Rightarrow> Return (Inl (Errorf_w ''rows iterating'' e))
       | None \<Rightarrow> Return (Inr res), Some ?r)"
    using assms(1) by (simp add: queryAnyRows_def body)
  show ?thesis
  proof (rule that [of ?r "CallColumnTypes # cs"])
    show "snd (queryAnyRows conn query single args) = Some ?r"
      by (simp add: q)
    show "closed ?r" "releases ?r = 1"
      using e by (simp_all add: Rows_Close_def rows_close_def called_def)
    show "calls ?r = (CallColumnTypes # cs) @ [CallClose, CallErr, CallClose]"
      using e l by (simp add: Rows_Close_def rows_close_def called_def)
    show "CallClose \<notin> set (CallColumnTypes # cs)" "CallErr \<notin> set (CallColumnTypes # cs)"
      using l by simp_all
    show "fst (queryAnyRows conn query single args) =
       (case stream_err rsn of
          Some e \<Rightarrow> Return (Inl (Errorf_w ''rows iterating'' e))
        | None \<Rightarrow>
            (case release_err rsn of
               Some e \<Rightarrow> Return (Inl (Errorf_w ''rows iterating'' e))
             | None \<Rightarrow> Return (Inr res)))"
      by (simp add: q final_def split: option.splits)
  qed
qed

text \<open>
  The loop was left by the \<^verbatim>\<open>break\<close> of single mode: the explicit \<^verbatim>\<open>Close\<close> releases the
  cursor and returns the release error; when there is none, \<^verbatim>\<open>Err\<close> reports nil.
\<close>

lemma queryAnyRows_loop_break:
  assumes "conn query args = Inr rsn" and "columns_err rsn = None"
    and "loop_outcome True rsn = Return (Inr res)" and "stream rsn \<noteq> []"
  obtains r pre where "snd (queryAnyRows conn query True args) = Some r"
    "closed r" "releases r = 1"
    "CallClose \<notin> set pre" "CallErr \<notin> set pre"
    "release_err rsn \<noteq> None \<Longrightarrow> calls r = pre @ [CallClose, CallClose]"
    "release_err rsn = None \<Longrightarrow> calls r = pre @ [CallClose, CallErr, CallClose]"
    "fst (queryAnyRows conn query True args) =
       (case release_err rsn of
          Some e \<Rightarrow> Return (Inl (Errorf_w ''rows closing'' e))
        | None \<Rightarrow> Return (Inr res))"
proof -
  obtain r2 cs where l: "scan_rows (columns rsn) True (called CallColumnTypes (open_rows rsn)) []
       = (loop_outcome True rsn, r2)"
    "rset r2 = rsn" "calls r2 = CallColumnTypes # cs"
    "CallClose \<notin> set cs" "CallErr \<notin> set cs"
    by (rule loop_exit)
  from l(1) assms(3) have l1:
    "scan_rows (columns rsn) True (called CallColumnTypes (open_rows rsn)) []
       = (Return (Inr res), r2)"
    by simp
  from assms(4) have o: "\<not> closed r2" "releases r2 = 0"
    using loop_exit_open [OF l(1)] by simp_all
  have le: "lasterr r2 = LastNil"
    using l1 assms(4) by (rule loop_exit_break)
  define r3 where "r3 = called CallClose (snd (rows_close r2))"
  have close2: "Rows_Close r2 = (release_err rsn, r3)"
    using o l(2) by (simp add: Rows_Close_def rows_close_def r3_def)
  have r3: "closed r3" "releases r3 = 1" "calls r3 = (CallColumnTypes # cs) @ [CallClose]"
    "lasterr r3 = as_lasterr (release_err rsn)"
    using o l le by (simp_all add: r3_def rows_close_def called_def)
  have err3: "release_err rsn = None \<Longrightarrow> Rows_Err r3 = (None, called CallErr r3)"
    using r3(4) by (simp add: Rows_Err_def)
  have body: "queryAnyRows_body True (open_rows rsn) =
      (case release_err rsn of
         Some e \<Rightarrow> (Return (Inl (Errorf_w ''rows closing'' e)), r3)
       | None \<Rightarrow> (Return (Inr res), called CallErr r3))"
    using l1 Rows_ColumnTypes_open [OF assms(2)] close2 err3
    by (simp add: queryAnyRows_body_def split: option.splits)
  let ?r = "snd (Rows_Close (snd (queryAnyRows_body True (open_rows rsn))))"
  have fin: "snd (queryAnyRows conn query True args) = Some ?r"
    using assms(1) by (simp add: queryAnyRows_def split: prod.splits)
  have out: "fst (queryAnyRows conn query True args) = fst (queryAnyRows_body True (open_rows rsn))"
    using assms(1) by (simp add: queryAnyRows_def split: prod.splits)
  have fin_closing: "?r = called CallClose r3" if "release_err rsn \<noteq> None"
    using that r3 by (auto simp: body Rows_Close_def rows_close_def)
  have fin_done: "?r = called CallClose (called CallErr r3)" if "release_err rsn = None"
    using that r3 by (auto simp: body Rows_Close_def rows_close_def called_def)
  show ?thesis
  proof (rule that [of ?r "CallColumnTypes # cs"])
    show "snd (queryAnyRows conn query True args) = Some ?r"
      by (fact fin)
    show "closed ?r" "releases ?r = 1"
      using fin_closing fin_done r3 by (cases "release_err rsn"; simp add: called_def)+
    show "CallClose \<notin> set (CallColumnTypes # cs)" "CallErr \<notin> set (CallColumnTypes # cs)"
      using l by simp_all
    show "calls ?r = (CallColumnTypes # cs) @ [CallClose, CallClose]"
      if "release_err rsn \<noteq> None"
      using fin_closing [OF that] r3 by (simp add: called_def)
    show "calls ?r = (CallColumnTypes # cs) @ [CallClose, CallErr, CallClose]"
      if "release_err rsn = None"
      using fin_done [OF that] r3 by (simp add: called_def)
    show "fst (queryAnyRows conn query True args) =
       (case release_err rsn of
          Some e \<Rightarrow> Return (Inl (Errorf_w ''rows closing'' e))
        | None \<Rightarrow> Return (Inr res))"
      by (simp add: out body split: option.splits)
  qed
qed

text \<open>With a column, \<^verbatim>\<open>queryAnyRows\<close> never returns a record.\<close>

lemma queryAnyRows_no_record:
  assumes q: "conn query args = Inr rsn" and cols: "columns rsn \<noteq> []"
    and out: "fst (queryAnyRows conn query single args) = Return (Inr recs)"
  shows "recs = []"
proof (cases "columns_err rsn")
  case (Some e)
  from queryAnyRows_columns_fail [where conn = conn and query = query and args = args
      and single = single, OF q Some]
  obtain r where "queryAnyRows conn query single args =
      (Return (Inl (Errorf_w ''columns describing'' e)), Some r)"
    by blast
  with out show ?thesis by simp
next
  case None
  show ?thesis
  proof (cases "\<exists>res. loop_outcome single rsn = Return (Inr res)")
    case False
    then have no: "\<And>res. loop_outcome single rsn \<noteq> Return (Inr res)" by blast
    from queryAnyRows_loop_fail [where conn = conn and query = query and args = args,
        OF q None no]
    obtain r where "queryAnyRows conn query single args = (loop_outcome single rsn, Some r)"
      by blast
    with out no show ?thesis by simp
  next
    case True
    then obtain res where res: "loop_outcome single rsn = Return (Inr res)" by blast
    then have empty: "res = []"
      unfolding loop_outcome_def using cols by (rule scan_rows_no_record)
    show ?thesis
    proof (cases "single \<and> stream rsn \<noteq> []")
      case True
      with res have "loop_outcome True rsn = Return (Inr res)" and "stream rsn \<noteq> []"
        by simp_all
      from queryAnyRows_loop_break [where conn = conn and query = query and args = args,
          OF q None this]
      have "fst (queryAnyRows conn query True args) =
         (case release_err rsn of
            Some e \<Rightarrow> Return (Inl (Errorf_w ''rows closing'' e))
          | None \<Rightarrow> Return (Inr res))"
        by blast
      with out True empty show ?thesis
        by (simp split: option.splits)
    next
      case False
      then have "single \<longrightarrow> stream rsn = []" by simp
      from queryAnyRows_loop_end [where conn = conn and query = query and args = args,
          OF q None res this]
      have "fst (queryAnyRows conn query single args) =
         (case stream_err rsn of
            Some e \<Rightarrow> Return (Inl (Errorf_w ''rows iterating'' e))
          | None \<Rightarrow>
              (case release_err rsn of
                 Some e \<Rightarrow> Return (Inl (Errorf_w ''rows iterating'' e))
               | None \<Rightarrow> Return (Inr res)))"
        by blast
      with out empty show ?thesis
        by (simp split: option.splits)
    qed
  qed
qed

section \<open>The transaction runner\<close>

text \<open>
  C4. When the transaction begins and the callback returns nil without panicking,
  \<^verbatim>\<open>WithTx\<close> calls \<^verbatim>\<open>Commit\<close> once and \<^verbatim>\<open>Rollback\<close> never, and returns what
  \<^verbatim>\<open>Commit\<close> returned: the commit error, or nil.
\<close>

theorem WithTx_commit:
  assumes "db LevelSerializable = Inr tx" and "f tx = Return None"
  shows "WithTx db f = (Return (Commit tx), [CallCommit])"
  using assms by (simp add: WithTx_def)

theorem WithTx_commit_witness:
  "WithTx (\<lambda>level. Inr \<lparr>Commit = None, Rollback = None\<rparr>) (\<lambda>tx. Return None)
     = (Return None, [CallCommit]) \<and>
   WithTx (\<lambda>level. Inr \<lparr>Commit = Some (ErrorString ''commit failed''), Rollback = None\<rparr>)
       (\<lambda>tx. Return None)
     = (Return (Some (ErrorString ''commit failed'')), [CallCommit])"
  using WithTx_commit [of "\<lambda>level. Inr \<lparr>Commit = None, Rollback = None\<rparr>"
      "\<lparr>Commit = None, Rollback = None\<rparr>" "\<lambda>tx. Return None"]
    WithTx_commit [of "\<lambda>level. Inr \<lparr>Commit = Some (ErrorString ''commit failed''), Rollback = None\<rparr>"
      "\<lparr>Commit = Some (ErrorString ''commit failed''), Rollback = None\<rparr>" "\<lambda>tx. Return None"]
  by simp



text \<open>
  C2, as the code has it. When the transaction begins and the callback returns the error
  \<open>e\<close>, \<^verbatim>\<open>WithTx\<close> calls \<^verbatim>\<open>Rollback\<close> once and \<^verbatim>\<open>Commit\<close> never, and returns
  \<^verbatim>\<open>errors.Join(e, rollback error)\<close>: the join of \<open>e\<close> and the rollback error when the
  rollback failed, and the join whose only member is \<open>e\<close> when it succeeded. In both cases
  \<^verbatim>\<open>errors.Is\<close> finds \<open>e\<close> in the result, and the rollback error when there is one.
\<close>

theorem WithTx_callback_error:
  assumes "db LevelSerializable = Inr tx" and "f tx = Return (Some e)"
  shows "snd (WithTx db f) = [CallRollback] \<and>
    (\<exists>err. fst (WithTx db f) = Return (Some err) \<and> errors_Is err e \<and>
       (case Rollback tx of
          None \<Rightarrow> err = JoinError [e]
        | Some rb \<Rightarrow> err = JoinError [e, rb] \<and> errors_Is err rb))"
  using assms
  by (simp add: WithTx_def errors_Join_def List.map_filter_simps errors_Is_refl
      split: option.splits)

theorem WithTx_callback_error_witness:
  "snd (WithTx (\<lambda>level. Inr \<lparr>Commit = None, Rollback = Some (ErrorString ''rollback failed'')\<rparr>)
          (\<lambda>tx. Return (Some (ErrorString ''duplicate key'')))) = [CallRollback] \<and>
   fst (WithTx (\<lambda>level. Inr \<lparr>Commit = None, Rollback = Some (ErrorString ''rollback failed'')\<rparr>)
          (\<lambda>tx. Return (Some (ErrorString ''duplicate key''))))
     = Return (Some (JoinError [ErrorString ''duplicate key'', ErrorString ''rollback failed''])) \<and>
   fst (WithTx (\<lambda>level. Inr \<lparr>Commit = None, Rollback = None\<rparr>)
          (\<lambda>tx. Return (Some (ErrorString ''duplicate key''))))
     = Return (Some (JoinError [ErrorString ''duplicate key'']))"
  using WithTx_callback_error [of "\<lambda>level. Inr \<lparr>Commit = None, Rollback = Some (ErrorString ''rollback failed'')\<rparr>"
      "\<lparr>Commit = None, Rollback = Some (ErrorString ''rollback failed'')\<rparr>"
      "\<lambda>tx. Return (Some (ErrorString ''duplicate key''))" "ErrorString ''duplicate key''"]
    WithTx_callback_error [of "\<lambda>level. Inr \<lparr>Commit = None, Rollback = None\<rparr>"
      "\<lparr>Commit = None, Rollback = None\<rparr>"
      "\<lambda>tx. Return (Some (ErrorString ''duplicate key''))" "ErrorString ''duplicate key''"]
  by auto

text \<open>
  C2, as the claim has it, fails in its last clause: after a rollback that succeeded the
  result is not the error the callback returned but a join error around it.
\<close>

theorem WithTx_callback_error_rewrapped:
  "fst (WithTx (\<lambda>level. Inr \<lparr>Commit = None, Rollback = None\<rparr>)
          (\<lambda>tx. Return (Some (ErrorString ''duplicate key''))))
     \<noteq> Return (Some (ErrorString ''duplicate key''))"
  by (simp add: WithTx_def errors_Join_def List.map_filter_simps)

section \<open>The dynamic row scanner\<close>

text \<open>
  C1, evaluated on the code. On the rows (1, "a") and (2, "b") under the columns \<open>id\<close> and
  \<open>name\<close>, \<^verbatim>\<open>QueryAnyRows\<close> returns no record: the scan of the first row fails on column 0
  with \<^verbatim>\<open>destination not a pointer\<close>, and the call returns that error under
  \<^verbatim>\<open>rows scanning\<close>.
\<close>

theorem QueryAnyRows_id_name_fails:
  "fst (QueryAnyRows (conn_of id_name_rows) ''SELECT id, name FROM t'' []) =
     Return (Inl (Errorf_w ''rows scanning''
       (ScanError 0 (ErrorString ''destination not a pointer''))))"
  using queryAnyRows_scan_fails [of "conn_of id_name_rows" "''SELECT id, name FROM t''" "[]"
      id_name_rows "\<lparr>Name = ''id'', ScanType = ''int64''\<rparr>"
      "[\<lparr>Name = ''name'', ScanType = ''string''\<rparr>]"
      "[DInt 1, DString ''a'']" "[[DInt 2, DString ''b'']]" False]
  by (simp add: QueryAnyRows_def conn_of_def id_name_rows_def)

text \<open>
  C9, evaluated on the code. On the same two rows \<^verbatim>\<open>QueryAny\<close> scans one row only (one call
  of \<^verbatim>\<open>Scan\<close>, after one call of \<^verbatim>\<open>Next\<close>), but that scan fails and the call returns the
  scan error instead of the first row.
\<close>

theorem QueryAny_id_name_fails:
  "fst (QueryAny (conn_of id_name_rows) ''SELECT id, name FROM t'' []) =
     Return (Inl (Errorf_w ''rows scanning''
       (ScanError 0 (ErrorString ''destination not a pointer'')))) \<and>
   map_option calls (snd (QueryAny (conn_of id_name_rows) ''SELECT id, name FROM t'' [])) =
     Some [CallColumnTypes, CallNext, CallScan, CallClose]"
  by (simp add: QueryAny_def queryAnyRows_def queryAnyRows_body_def rows_defs makeRs_eq
      reflect_Zero_def conn_of_def id_name_rows_def scan_rows.simps)

text \<open>
  C8. When the query executes, its columns are described and its cursor ends without
  delivering a row and without a release or iteration error, \<^verbatim>\<open>QueryAny\<close> returns no
  record and the error \<^verbatim>\<open>sql.ErrNoRows\<close>.
\<close>

theorem QueryAny_no_rows:
  assumes "conn query args = Inr rsn" and "columns_err rsn = None" and "stream rsn = []"
    and "release_err rsn = None" and "stream_err rsn = None"
  shows "fst (QueryAny conn query args) = Return (Inl ErrNoRows)"
proof -
  obtain r where "queryAnyRows conn query True args = (Return (Inr []), r)"
    using queryAnyRows_no_rows [of conn query args rsn True] assms
    by (cases "queryAnyRows conn query True args") simp
  then show ?thesis
    by (simp add: QueryAny_def)
qed

theorem QueryAny_no_rows_witness:
  "fst (QueryAny (conn_of no_rows) ''SELECT id, name FROM t WHERE id = ?'' [DInt 7])
     = Return (Inl ErrNoRows)"
  using QueryAny_no_rows [of "conn_of no_rows" "''SELECT id, name FROM t WHERE id = ?''"
      "[DInt 7]" no_rows]
  by (simp add: conn_of_def no_rows_def id_name_rows_def)

text \<open>
  C10. Under the same conditions \<^verbatim>\<open>QueryAnyRows\<close> returns the nil slice and a nil error:
  for the multi-row helper an empty result is not an error.
\<close>

theorem QueryAnyRows_no_rows:
  assumes "conn query args = Inr rsn" and "columns_err rsn = None" and "stream rsn = []"
    and "release_err rsn = None" and "stream_err rsn = None"
  shows "fst (QueryAnyRows conn query args) = Return (Inr [])"
  using queryAnyRows_no_rows [of conn query args rsn False] assms
  by (simp add: QueryAnyRows_def)

theorem QueryAnyRows_no_rows_witness:
  "fst (QueryAnyRows (conn_of no_rows) ''SELECT id, name FROM t WHERE id = ?'' [DInt 7])
     = Return (Inr [])"
  using QueryAnyRows_no_rows [of "conn_of no_rows" "''SELECT id, name FROM t WHERE id = ?''"
      "[DInt 7]" no_rows]
  by (simp add: conn_of_def no_rows_def id_name_rows_def)

text \<open>
  C5, evaluated on the code. For the columns \<open>id\<close> (scan type \<^verbatim>\<open>int64\<close>) and \<open>name\<close> (scan
  type \<^verbatim>\<open>string\<close>) the scan targets \<^verbatim>\<open>makeRs\<close> allocates are two \<^verbatim>\<open>reflect.Value\<close>s,
  not destinations of those types, and \<^verbatim>\<open>Scan\<close> refuses them on the row (1, "a"). So no
  record with the keys \<open>id\<close> and \<open>name\<close> is produced.
\<close>

theorem makeRs_targets_refused:
  "makeRs (columns id_name_rows) = [ReflectValue ''int64'', ReflectValue ''string''] \<and>
   fst (Rows_Scan (snd (Rows_Next (open_rows id_name_rows))) (makeRs (columns id_name_rows)))
     = Inl (ScanError 0 (ErrorString ''destination not a pointer''))"
  by (simp add: makeRs_eq reflect_Zero_def id_name_rows_def rows_defs)

text \<open>
  C7, as the code has it. Once the query has executed, the cursor is released exactly once
  on every exit path and is closed when the call ends: by \<^verbatim>\<open>Next\<close> itself when the stream
  is read to its end, by the \<^verbatim>\<open>Close\<close> of line 73 after the \<^verbatim>\<open>break\<close> of single mode,
  and by the deferred \<^verbatim>\<open>Close\<close> when the column description or a scan fails. \<^verbatim>\<open>Close\<close>
  is called once (the deferred call) when the column description or the row loop fails, and
  twice (line 73, then the deferred call) when the loop is left normally.
  \<^verbatim>\<open>Err\<close> is inspected exactly when the columns were described, the loop was left normally
  and the \<^verbatim>\<open>Close\<close> of line 73 returned nil, which only a release failure after the
  \<^verbatim>\<open>break\<close> of single mode prevents. It is then inspected once, after that \<^verbatim>\<open>Close\<close>.
  After the \<^verbatim>\<open>break\<close> it reports nil and the record is returned. When the stream was read
  to its end it reports the error that ended the stream, or else the failure of the release
  \<^verbatim>\<open>Next\<close> made, and a non-nil report is returned under \<^verbatim>\<open>rows iterating\<close>.
\<close>

theorem queryAnyRows_release:
  assumes "conn query args = Inr rsn"
  shows "\<exists>r. snd (queryAnyRows conn query single args) = Some r \<and> closed r \<and> releases r = 1 \<and>
    length (filter (\<lambda>c. c = CallClose) (calls r)) =
      (if columns_err rsn = None \<and> (\<exists>res. loop_outcome single rsn = Return (Inr res))
       then 2 else 1) \<and>
    (CallErr \<in> set (calls r)) =
      (columns_err rsn = None \<and> (\<exists>res. loop_outcome single rsn = Return (Inr res)) \<and>
       (single \<and> stream rsn \<noteq> [] \<longrightarrow> release_err rsn = None)) \<and>
    (CallErr \<in> set (calls r) \<longrightarrow>
       (\<exists>pre. calls r = pre @ [CallClose, CallErr, CallClose] \<and>
          CallClose \<notin> set pre \<and> CallErr \<notin> set pre) \<and>
       (\<exists>res. loop_outcome single rsn = Return (Inr res) \<and>
          fst (queryAnyRows conn query single args) =
            (if single \<and> stream rsn \<noteq> [] then Return (Inr res)
             else case stream_err rsn of
                    Some e \<Rightarrow> Return (Inl (Errorf_w ''rows iterating'' e))
                  | None \<Rightarrow>
                      (case release_err rsn of
                         Some e \<Rightarrow> Return (Inl (Errorf_w ''rows iterating'' e))
                       | None \<Rightarrow> Return (Inr res)))))"
proof (cases "columns_err rsn")
  case (Some e)
  from queryAnyRows_columns_fail [where conn = conn and query = query and args = args
      and single = single, OF assms Some]
  obtain r where "queryAnyRows conn query single args =
      (Return (Inl (Errorf_w ''columns describing'' e)), Some r)"
    "closed r" "releases r = 1" "calls r = [CallColumnTypes, CallClose]"
    by blast
  with Some show ?thesis by simp
next
  case None
  show ?thesis
  proof (cases "\<exists>res. loop_outcome single rsn = Return (Inr res)")
    case False
    then have "\<And>res. loop_outcome single rsn \<noteq> Return (Inr res)" by blast
    from queryAnyRows_loop_fail [where conn = conn and query = query and args = args,
        OF assms None this]
    obtain r pre where
      "queryAnyRows conn query single args = (loop_outcome single rsn, Some r)"
      "closed r" "releases r = 1" "calls r = pre @ [CallClose]"
      "CallClose \<notin> set pre" "CallErr \<notin> set pre"
      by blast
    moreover from \<open>CallClose \<notin> set pre\<close> have "filter (\<lambda>c. c = CallClose) pre = []"
      by (auto simp: filter_empty_conv)
    ultimately show ?thesis
      using False None by simp
  next
    case True
    then obtain res where res: "loop_outcome single rsn = Return (Inr res)" by blast
    show ?thesis
    proof (cases "single \<and> stream rsn \<noteq> []")
      case brk: True
      with res have "loop_outcome True rsn = Return (Inr res)" and "stream rsn \<noteq> []"
        by simp_all
      from queryAnyRows_loop_break [where conn = conn and query = query and args = args,
          OF assms None this]
      obtain r pre where r:
        "snd (queryAnyRows conn query True args) = Some r"
        "closed r" "releases r = 1"
        "CallClose \<notin> set pre" "CallErr \<notin> set pre"
        "release_err rsn \<noteq> None \<Longrightarrow> calls r = pre @ [CallClose, CallClose]"
        "release_err rsn = None \<Longrightarrow> calls r = pre @ [CallClose, CallErr, CallClose]"
        "fst (queryAnyRows conn query True args) =
           (case release_err rsn of
              Some e \<Rightarrow> Return (Inl (Errorf_w ''rows closing'' e))
            | None \<Rightarrow> Return (Inr res))"
        by blast
      have nopre: "filter (\<lambda>c. c = CallClose) pre = []"
        using r(4) by (auto simp: filter_empty_conv)
      show ?thesis
      proof (cases "release_err rsn")
        case rel: None
        with r None res brk nopre show ?thesis
          by simp
      next
        case rel: (Some e)
        with r None res brk nopre show ?thesis
          by simp
      qed
    next
      case nobrk: False
      then have "single \<longrightarrow> stream rsn = []" by simp
      from queryAnyRows_loop_end [where conn = conn and query = query and args = args,
          OF assms None res this]
      obtain r pre where r:
        "snd (queryAnyRows conn query single args) = Some r"
        "closed r" "releases r = 1" "calls r = pre @ [CallClose, CallErr, CallClose]"
        "CallClose \<notin> set pre" "CallErr \<notin> set pre"
        "fst (queryAnyRows conn query single args) =
           (case stream_err rsn of
              Some e \<Rightarrow> Return (Inl (Errorf_w ''rows iterating'' e))
            | None \<Rightarrow>
                (case release_err rsn of
                   Some e \<Rightarrow> Return (Inl (Errorf_w ''rows iterating'' e))
                 | None \<Rightarrow> Return (Inr res)))"
        by blast
      have nopre: "filter (\<lambda>c. c = CallClose) pre = []"
        using r(5) by (auto simp: filter_empty_conv)
      from r None res nobrk nopre show ?thesis
        by auto
    qed
  qed
qed

theorem queryAnyRows_release_witness:
  "(\<exists>r. snd (queryAnyRows (conn_of (no_rows\<lparr>stream_err := Some (ErrorString ''bad connection'')\<rparr>))
             ''SELECT id, name FROM t'' False []) = Some r \<and>
     releases r = 1 \<and>
     calls r = [CallColumnTypes, CallNext, CallClose, CallErr, CallClose]) \<and>
   fst (queryAnyRows (conn_of (no_rows\<lparr>stream_err := Some (ErrorString ''bad connection'')\<rparr>))
          ''SELECT id, name FROM t'' False [])
     = Return (Inl (Errorf_w ''rows iterating'' (ErrorString ''bad connection''))) \<and>
   fst (queryAnyRows (conn_of (no_rows\<lparr>release_err := Some (ErrorString ''close failed'')\<rparr>))
          ''SELECT id, name FROM t'' False [])
     = Return (Inl (Errorf_w ''rows iterating'' (ErrorString ''close failed''))) \<and>
   fst (queryAnyRows (conn_of (unit_rows\<lparr>stream_err := Some (ErrorString ''bad connection'')\<rparr>))
          ''SELECT FROM t'' True [])
     = Return (Inr [Map.empty])"
  using queryAnyRows_release [of "conn_of (no_rows\<lparr>stream_err := Some (ErrorString ''bad connection'')\<rparr>)"
      "''SELECT id, name FROM t''" "[]"
      "no_rows\<lparr>stream_err := Some (ErrorString ''bad connection'')\<rparr>" False]
    queryAnyRows_release [of "conn_of (no_rows\<lparr>release_err := Some (ErrorString ''close failed'')\<rparr>)"
      "''SELECT id, name FROM t''" "[]"
      "no_rows\<lparr>release_err := Some (ErrorString ''close failed'')\<rparr>" False]
    queryAnyRows_release [of "conn_of (unit_rows\<lparr>stream_err := Some (ErrorString ''bad connection'')\<rparr>)"
      "''SELECT FROM t''" "[]"
      "unit_rows\<lparr>stream_err := Some (ErrorString ''bad connection'')\<rparr>" True]
  by (simp add: conn_of_def no_rows_def unit_rows_def id_name_rows_def queryAnyRows_def
      queryAnyRows_body_def rows_defs scan_rows.simps makeRs_def makeAny_def)

text \<open>
  C7, as the claim has it, fails on the early returns: when the column description fails
  (here because the context was cancelled) the call returns without ever calling
  \<^verbatim>\<open>Err\<close>, and so it does when a scan fails.
\<close>

theorem queryAnyRows_err_not_inspected:
  "fst (queryAnyRows (conn_of canceled_rows) ''SELECT id, name FROM t'' False [])
     \<noteq> Return (Inl (Errorf_w ''rows iterating'' (ErrorString ''context canceled''))) \<and>
   map_option calls (snd (queryAnyRows (conn_of canceled_rows) ''SELECT id, name FROM t'' False []))
     = Some [CallColumnTypes, CallClose] \<and>
   map_option calls (snd (queryAnyRows
       (conn_of (id_name_rows\<lparr>stream_err := Some (ErrorString ''bad connection'')\<rparr>))
       ''SELECT id, name FROM t'' False []))
     = Some [CallColumnTypes, CallNext, CallScan, CallClose]"
  by (simp add: conn_of_def canceled_rows_def id_name_rows_def queryAnyRows_def
      queryAnyRows_body_def rows_defs scan_rows.simps makeRs_eq reflect_Zero_def)

text \<open>
  C6, as the code has it. The first failing stage decides the result. A failure of the query
  execution, the column description, a row scan, the end-of-iteration check, the pool
  opening or the ping is returned under that stage's context by \<^verbatim>\<open>fmt.Errorf\<close> with
  \<^verbatim>\<open>%w\<close>, so that \<^verbatim>\<open>errors.Is\<close> still finds the cause. A failure of the cursor release
  is returned under \<^verbatim>\<open>rows closing\<close> when the release is made by the \<^verbatim>\<open>Close\<close> of line
  73, after the \<^verbatim>\<open>break\<close> of single mode; when the stream was read to its end the release
  was made by \<^verbatim>\<open>Next\<close>, and its failure is returned under \<^verbatim>\<open>rows iterating\<close>. A failure
  to begin the transaction and a failure to commit are returned as they are, without
  context, and a failure to roll back is joined to the error of the callback.
\<close>

theorem stage_failures:
  "(db LevelSerializable = Inl e \<longrightarrow> WithTx db f = (Return (Some e), [])) \<and>
   (db LevelSerializable = Inr tx \<longrightarrow> f tx = Return None \<longrightarrow> Commit tx = Some e \<longrightarrow>
      fst (WithTx db f) = Return (Some e)) \<and>
   (db LevelSerializable = Inr tx \<longrightarrow> f tx = Return (Some failed) \<longrightarrow> Rollback tx = Some e \<longrightarrow>
      fst (WithTx db f) = Return (Some (JoinError [failed, e]))) \<and>
   (conn query args = Inl e \<longrightarrow>
      fst (queryAnyRows conn query single args) =
        Return (Inl (Errorf_w ''query executing'' e))) \<and>
   (conn query args = Inr rsn \<longrightarrow> columns_err rsn = Some e \<longrightarrow>
      fst (queryAnyRows conn query single args) =
        Return (Inl (Errorf_w ''columns describing'' e))) \<and>
   (conn query args = Inr rsn \<longrightarrow> columns_err rsn = None \<longrightarrow> stream rsn = row # rest \<longrightarrow>
    scan_row (makeRs (columns rsn)) row = Inl e \<longrightarrow>
      fst (queryAnyRows conn query single args) =
        Return (Inl (Errorf_w ''rows scanning'' e))) \<and>
   (conn query args = Inr rsn \<longrightarrow> columns_err rsn = None \<longrightarrow>
    loop_outcome single rsn = Return (Inl err) \<longrightarrow>
      fst (queryAnyRows conn query single args) = Return (Inl err) \<and>
      (\<exists>cause scanned. scanned \<in> set (stream rsn) \<and>
         scan_row (makeRs (columns rsn)) scanned = Inl cause \<and>
         err = Errorf_w ''rows scanning'' cause)) \<and>
   (conn query args = Inr rsn \<longrightarrow> columns_err rsn = None \<longrightarrow>
    loop_outcome True rsn = Return (Inr res) \<longrightarrow> stream rsn \<noteq> [] \<longrightarrow>
    release_err rsn = Some e \<longrightarrow>
      fst (queryAnyRows conn query True args) =
        Return (Inl (Errorf_w ''rows closing'' e))) \<and>
   (conn query args = Inr rsn \<longrightarrow> columns_err rsn = None \<longrightarrow>
    loop_outcome single rsn = Return (Inr res) \<longrightarrow> (single \<longrightarrow> stream rsn = []) \<longrightarrow>
    stream_err rsn = Some e \<longrightarrow>
      fst (queryAnyRows conn query single args) =
        Return (Inl (Errorf_w ''rows iterating'' e))) \<and>
   (conn query args = Inr rsn \<longrightarrow> columns_err rsn = None \<longrightarrow>
    loop_outcome single rsn = Return (Inr res) \<longrightarrow> (single \<longrightarrow> stream rsn = []) \<longrightarrow>
    stream_err rsn = None \<longrightarrow> release_err rsn = Some e \<longrightarrow>
      fst (queryAnyRows conn query single args) =
        Return (Inl (Errorf_w ''rows iterating'' e))) \<and>
   (sql_Open driverName dataSourceName = Inl e \<longrightarrow>
      Open sql_Open driverName dataSourceName maxConn maxLifetime pingTimeout =
        Inl (Errorf_w ''opening database'' e)) \<and>
   (sql_Open driverName dataSourceName = Inr pool \<longrightarrow> PingContext pool pingTimeout = Some e \<longrightarrow>
      Open sql_Open driverName dataSourceName maxConn maxLifetime pingTimeout =
        Inl (Errorf_w ''pinging database'' e)) \<and>
   errors_Is (Errorf_w c e) e"
proof (intro conjI impI)
  assume "db LevelSerializable = Inl e"
  then show "WithTx db f = (Return (Some e), [])"
    by (simp add: WithTx_def)
next
  assume "db LevelSerializable = Inr tx" and "f tx = Return None" and "Commit tx = Some e"
  then show "fst (WithTx db f) = Return (Some e)"
    by (simp add: WithTx_def)
next
  assume "db LevelSerializable = Inr tx" and "f tx = Return (Some failed)"
    and "Rollback tx = Some e"
  then show "fst (WithTx db f) = Return (Some (JoinError [failed, e]))"
    by (simp add: WithTx_def errors_Join_def List.map_filter_simps)
next
  assume "conn query args = Inl e"
  then show "fst (queryAnyRows conn query single args) =
      Return (Inl (Errorf_w ''query executing'' e))"
    by (simp add: queryAnyRows_def)
next
  assume a: "conn query args = Inr rsn" "columns_err rsn = Some e"
  from queryAnyRows_columns_fail [where conn = conn and query = query and args = args
      and single = single, OF a]
  obtain r where "queryAnyRows conn query single args =
      (Return (Inl (Errorf_w ''columns describing'' e)), Some r)"
    by blast
  then show "fst (queryAnyRows conn query single args) =
      Return (Inl (Errorf_w ''columns describing'' e))"
    by simp
next
  assume a: "conn query args = Inr rsn" "columns_err rsn = None" "stream rsn = row # rest"
    "scan_row (makeRs (columns rsn)) row = Inl e"
  have first: "fst (Rows_Next (called CallColumnTypes (open_rows rsn)))"
    using a(3) by (simp add: Rows_Next_def open_rows_def called_def)
  from first obtain v vs where "pending (called CallColumnTypes (open_rows rsn)) = v # vs"
    "fst (Rows_Scan (snd (Rows_Next (called CallColumnTypes (open_rows rsn))))
       (makeRs (columns rsn))) = scan_row (makeRs (columns rsn)) v"
    by (rule Rows_Scan_row)
  with a(3,4) have
    "fst (Rows_Scan (snd (Rows_Next (called CallColumnTypes (open_rows rsn))))
       (makeRs (columns rsn))) = Inl e"
    by (simp add: open_rows_def called_def)
  with first have l: "loop_outcome single rsn = Return (Inl (Errorf_w ''rows scanning'' e))"
    by (simp add: loop_outcome_def Rows_ColumnTypes_def
        scan_rows.simps [of "columns rsn" single "called CallColumnTypes (open_rows rsn)"]
        Let_def)
  then have "\<And>res. loop_outcome single rsn \<noteq> Return (Inr res)" by simp
  from queryAnyRows_loop_fail [where conn = conn and query = query and args = args,
      OF a(1,2) this]
  obtain r where "queryAnyRows conn query single args = (loop_outcome single rsn, Some r)"
    by blast
  with l show "fst (queryAnyRows conn query single args) =
      Return (Inl (Errorf_w ''rows scanning'' e))"
    by simp
next
  assume a: "conn query args = Inr rsn" "columns_err rsn = None"
    "loop_outcome single rsn = Return (Inl err)"
  then have "\<And>res. loop_outcome single rsn \<noteq> Return (Inr res)" by simp
  from queryAnyRows_loop_fail [where conn = conn and query = query and args = args,
      OF a(1,2) this]
  obtain r where "queryAnyRows conn query single args = (loop_outcome single rsn, Some r)"
    by blast
  with a(3) show "fst (queryAnyRows conn query single args) = Return (Inl err)"
    by simp
  from a(3) have "\<exists>cause scanned.
      scanned \<in> set (pending (snd (Rows_ColumnTypes (open_rows rsn)))) \<and>
      scan_row (makeRs (columns rsn)) scanned = Inl cause \<and>
      err = Errorf_w ''rows scanning'' cause"
    unfolding loop_outcome_def by (rule scan_rows_error)
  then show "\<exists>cause scanned. scanned \<in> set (stream rsn) \<and>
      scan_row (makeRs (columns rsn)) scanned = Inl cause \<and>
      err = Errorf_w ''rows scanning'' cause"
    by (simp add: Rows_ColumnTypes_def open_rows_def called_def)
next
  assume a: "conn query args = Inr rsn" "columns_err rsn = None"
    "loop_outcome True rsn = Return (Inr res)" "stream rsn \<noteq> []" "release_err rsn = Some e"
  from queryAnyRows_loop_break [where conn = conn and query = query and args = args,
      OF a(1-4)]
  have "fst (queryAnyRows conn query True args) =
     (case release_err rsn of
        Some e \<Rightarrow> Return (Inl (Errorf_w ''rows closing'' e))
      | None \<Rightarrow> Return (Inr res))"
    by blast
  with a(5) show "fst (queryAnyRows conn query True args) =
      Return (Inl (Errorf_w ''rows closing'' e))"
    by simp
next
  assume a: "conn query args = Inr rsn" "columns_err rsn = None"
    "loop_outcome single rsn = Return (Inr res)" "single \<longrightarrow> stream rsn = []"
    "stream_err rsn = Some e"
  from queryAnyRows_loop_end [where conn = conn and query = query and args = args,
      OF a(1-4)]
  have "fst (queryAnyRows conn query single args) =
     (case stream_err rsn of
        Some e \<Rightarrow> Return (Inl (Errorf_w ''rows iterating'' e))
      | None \<Rightarrow>
          (case release_err rsn of
             Some e \<Rightarrow> Return (Inl (Errorf_w ''rows iterating'' e))
           | None \<Rightarrow> Return (Inr res)))"
    by blast
  with a(5) show "fst (queryAnyRows conn query single args) =
      Return (Inl (Errorf_w ''rows iterating'' e))"
    by simp
next
  assume a: "conn query args = Inr rsn" "columns_err rsn = None"
    "loop_outcome single rsn = Return (Inr res)" "single \<longrightarrow> stream rsn = []"
    "stream_err rsn = None" "release_err rsn = Some e"
  from queryAnyRows_loop_end [where conn = conn and query = query and args = args,
      OF a(1-4)]
  have "fst (queryAnyRows conn query single args) =
     (case stream_err rsn of
        Some e \<Rightarrow> Return (Inl (Errorf_w ''rows iterating'' e))
      | None \<Rightarrow>
          (case release_err rsn of
             Some e \<Rightarrow> Return (Inl (Errorf_w ''rows iterating'' e))
           | None \<Rightarrow> Return (Inr res)))"
    by blast
  with a(5,6) show "fst (queryAnyRows conn query single args) =
      Return (Inl (Errorf_w ''rows iterating'' e))"
    by simp
next
  assume "sql_Open driverName dataSourceName = Inl e"
  then show "Open sql_Open driverName dataSourceName maxConn maxLifetime pingTimeout =
      Inl (Errorf_w ''opening database'' e)"
    by (simp add: Open_def)
next
  assume "sql_Open driverName dataSourceName = Inr pool" and "PingContext pool pingTimeout = Some e"
  then show "Open sql_Open driverName dataSourceName maxConn maxLifetime pingTimeout =
      Inl (Errorf_w ''pinging database'' e)"
    by (simp add: Open_def)
next
  show "errors_Is (Errorf_w c e) e"
    by (simp add: errors_Is_refl)
qed

theorem stage_failures_witness:
  "WithTx (\<lambda>level. Inl (ErrorString ''bad connection'')) (\<lambda>tx. Return None)
     = (Return (Some (ErrorString ''bad connection'')), []) \<and>
   fst (WithTx (\<lambda>level. Inr \<lparr>Commit = Some (ErrorString ''commit failed''), Rollback = None\<rparr>)
          (\<lambda>tx. Return None))
     = Return (Some (ErrorString ''commit failed'')) \<and>
   fst (WithTx (\<lambda>level. Inr \<lparr>Commit = None, Rollback = Some (ErrorString ''rollback failed'')\<rparr>)
          (\<lambda>tx. Return (Some (ErrorString ''duplicate key''))))
     = Return (Some (JoinError [ErrorString ''duplicate key'', ErrorString ''rollback failed''])) \<and>
   fst (queryAnyRows (\<lambda>query args. Inl (ErrorString ''syntax error'')) ''SELEC'' False [])
     = Return (Inl (Errorf_w ''query executing'' (ErrorString ''syntax error''))) \<and>
   fst (queryAnyRows (conn_of canceled_rows) ''SELECT id, name FROM t'' False [])
     = Return (Inl (Errorf_w ''columns describing'' (ErrorString ''context canceled''))) \<and>
   fst (queryAnyRows (conn_of failing_close) ''SELECT id, name FROM t'' False [])
     = Return (Inl (Errorf_w ''rows scanning''
         (ScanError 0 (ErrorString ''destination not a pointer'')))) \<and>
   fst (queryAnyRows (conn_of (unit_rows\<lparr>release_err := Some (ErrorString ''close failed'')\<rparr>))
          ''SELECT FROM t'' True [])
     = Return (Inl (Errorf_w ''rows closing'' (ErrorString ''close failed''))) \<and>
   fst (queryAnyRows (conn_of (no_rows\<lparr>stream_err := Some (ErrorString ''bad connection'')\<rparr>))
          ''SELECT id, name FROM t'' False [])
     = Return (Inl (Errorf_w ''rows iterating'' (ErrorString ''bad connection''))) \<and>
   fst (queryAnyRows (conn_of (no_rows\<lparr>release_err := Some (ErrorString ''close failed'')\<rparr>))
          ''SELECT id, name FROM t'' False [])
     = Return (Inl (Errorf_w ''rows iterating'' (ErrorString ''close failed''))) \<and>
   Open (\<lambda>driver dsn. Inl (ErrorString ''sql: unknown driver'')) ''nodriver'' ''dsn''
       25 300000000000 5000000000
     = Inl (Errorf_w ''opening database'' (ErrorString ''sql: unknown driver'')) \<and>
   Open (\<lambda>driver dsn. Inr unreachable_db) ''mysql'' ''dsn'' 25 300000000000 5000000000
     = Inl (Errorf_w ''pinging database'' (ErrorString ''context deadline exceeded''))"
proof -
  have beginning: "WithTx (\<lambda>level. Inl (ErrorString ''bad connection'')) (\<lambda>tx. Return None)
      = (Return (Some (ErrorString ''bad connection'')), [])"
    using stage_failures [where db = "\<lambda>level. Inl (ErrorString ''bad connection'')"
        and e = "ErrorString ''bad connection''" and f = "\<lambda>tx. Return None"]
    by simp
  have commit: "fst (WithTx
        (\<lambda>level. Inr \<lparr>Commit = Some (ErrorString ''commit failed''), Rollback = None\<rparr>)
        (\<lambda>tx. Return None))
      = Return (Some (ErrorString ''commit failed''))"
    using stage_failures [where e = "ErrorString ''commit failed''"
        and db = "\<lambda>level. Inr \<lparr>Commit = Some (ErrorString ''commit failed''), Rollback = None\<rparr>"
        and tx = "\<lparr>Commit = Some (ErrorString ''commit failed''), Rollback = None\<rparr>"
        and f = "\<lambda>tx. Return None"]
    by simp
  have rollback: "fst (WithTx
        (\<lambda>level. Inr \<lparr>Commit = None, Rollback = Some (ErrorString ''rollback failed'')\<rparr>)
        (\<lambda>tx. Return (Some (ErrorString ''duplicate key''))))
      = Return (Some (JoinError [ErrorString ''duplicate key'', ErrorString ''rollback failed'']))"
    using stage_failures [where e = "ErrorString ''rollback failed''"
        and db = "\<lambda>level. Inr \<lparr>Commit = None, Rollback = Some (ErrorString ''rollback failed'')\<rparr>"
        and tx = "\<lparr>Commit = None, Rollback = Some (ErrorString ''rollback failed'')\<rparr>"
        and f = "\<lambda>tx. Return (Some (ErrorString ''duplicate key''))"
        and failed = "ErrorString ''duplicate key''"]
    by simp
  have executing:
    "fst (queryAnyRows (\<lambda>query args. Inl (ErrorString ''syntax error'')) ''SELEC'' False [])
      = Return (Inl (Errorf_w ''query executing'' (ErrorString ''syntax error'')))"
    using stage_failures [where e = "ErrorString ''syntax error''"
        and conn = "\<lambda>query args. Inl (ErrorString ''syntax error'')"
        and query = "''SELEC''" and args = "[]" and single = False]
    by simp
  have describing:
    "fst (queryAnyRows (conn_of canceled_rows) ''SELECT id, name FROM t'' False [])
      = Return (Inl (Errorf_w ''columns describing'' (ErrorString ''context canceled'')))"
    using stage_failures [where e = "ErrorString ''context canceled''"
        and conn = "conn_of canceled_rows"
        and query = "''SELECT id, name FROM t''" and args = "[]" and single = False
        and rsn = canceled_rows]
    by (simp add: conn_of_def canceled_rows_def id_name_rows_def)
  have scanning:
    "fst (queryAnyRows (conn_of failing_close) ''SELECT id, name FROM t'' False [])
      = Return (Inl (Errorf_w ''rows scanning''
          (ScanError 0 (ErrorString ''destination not a pointer''))))"
    using stage_failures [where conn = "conn_of failing_close"
        and query = "''SELECT id, name FROM t''" and args = "[]" and single = False
        and rsn = failing_close and row = "[DInt 1, DString ''a'']"
        and rest = "[[DInt 2, DString ''b'']]"
        and e = "ScanError 0 (ErrorString ''destination not a pointer'')"]
    by (simp add: conn_of_def failing_close_def id_name_rows_def scan_row_def makeRs_eq
        reflect_Zero_def)
  have first_row: "loop_outcome True
      (unit_rows\<lparr>release_err := Some (ErrorString ''close failed'')\<rparr>) = Return (Inr [Map.empty])"
    by (simp add: unit_rows_def id_name_rows_def loop_outcome_def rows_defs scan_rows.simps
        makeRs_def makeAny_def)
  have closing:
    "fst (queryAnyRows (conn_of (unit_rows\<lparr>release_err := Some (ErrorString ''close failed'')\<rparr>))
          ''SELECT FROM t'' True [])
      = Return (Inl (Errorf_w ''rows closing'' (ErrorString ''close failed'')))"
    using stage_failures [where e = "ErrorString ''close failed''"
        and conn = "conn_of (unit_rows\<lparr>release_err := Some (ErrorString ''close failed'')\<rparr>)"
        and query = "''SELECT FROM t''" and args = "[]"
        and rsn = "unit_rows\<lparr>release_err := Some (ErrorString ''close failed'')\<rparr>"
        and res = "[Map.empty]"] first_row
    by (simp add: conn_of_def unit_rows_def id_name_rows_def)
  have iterating:
    "fst (queryAnyRows (conn_of (no_rows\<lparr>stream_err := Some (ErrorString ''bad connection'')\<rparr>))
          ''SELECT id, name FROM t'' False [])
      = Return (Inl (Errorf_w ''rows iterating'' (ErrorString ''bad connection'')))"
    using stage_failures [where e = "ErrorString ''bad connection''"
        and conn = "conn_of (no_rows\<lparr>stream_err := Some (ErrorString ''bad connection'')\<rparr>)"
        and query = "''SELECT id, name FROM t''" and args = "[]" and single = False
        and rsn = "no_rows\<lparr>stream_err := Some (ErrorString ''bad connection'')\<rparr>"
        and res = "[]"]
      loop_no_rows [of "no_rows\<lparr>stream_err := Some (ErrorString ''bad connection'')\<rparr>" False]
    by (simp add: conn_of_def no_rows_def id_name_rows_def)
  have released:
    "fst (queryAnyRows (conn_of (no_rows\<lparr>release_err := Some (ErrorString ''close failed'')\<rparr>))
          ''SELECT id, name FROM t'' False [])
      = Return (Inl (Errorf_w ''rows iterating'' (ErrorString ''close failed'')))"
    using stage_failures [where e = "ErrorString ''close failed''"
        and conn = "conn_of (no_rows\<lparr>release_err := Some (ErrorString ''close failed'')\<rparr>)"
        and query = "''SELECT id, name FROM t''" and args = "[]" and single = False
        and rsn = "no_rows\<lparr>release_err := Some (ErrorString ''close failed'')\<rparr>"
        and res = "[]"]
      loop_no_rows [of "no_rows\<lparr>release_err := Some (ErrorString ''close failed'')\<rparr>" False]
    by (simp add: conn_of_def no_rows_def id_name_rows_def)
  have opened:
    "Open (\<lambda>driver dsn. Inl (ErrorString ''sql: unknown driver'')) ''nodriver'' ''dsn''
        25 300000000000 5000000000
      = Inl (Errorf_w ''opening database'' (ErrorString ''sql: unknown driver''))"
    using stage_failures [where e = "ErrorString ''sql: unknown driver''"
        and sql_Open = "\<lambda>driver dsn. Inl (ErrorString ''sql: unknown driver'')"
        and driverName = "''nodriver''" and dataSourceName = "''dsn''"
        and maxConn = 25 and maxLifetime = 300000000000 and pingTimeout = 5000000000]
    by simp
  have pinging:
    "Open (\<lambda>driver dsn. Inr unreachable_db) ''mysql'' ''dsn'' 25 300000000000 5000000000
      = Inl (Errorf_w ''pinging database'' (ErrorString ''context deadline exceeded''))"
    using stage_failures [where e = "ErrorString ''context deadline exceeded''"
        and sql_Open = "\<lambda>driver dsn. Inr unreachable_db"
        and driverName = "''mysql''" and dataSourceName = "''dsn''" and pool = unreachable_db
        and maxConn = 25 and maxLifetime = 300000000000 and pingTimeout = 5000000000]
    by (simp add: unreachable_db_def)
  from beginning commit rollback executing describing scanning closing iterating released
    opened pinging
  show ?thesis by (intro conjI)
qed

text \<open>
  C6, as the claim has it, fails for the transaction begin, whose error is returned without
  any context; and the error of the deferred close is dropped: when a scan fails over a
  cursor whose release fails too, the result holds the scan error only.
\<close>

theorem begin_failure_unwrapped:
  "\<not> (\<exists>c. fst (WithTx (\<lambda>level. Inl (ErrorString ''bad connection'')) (\<lambda>tx. Return None))
          = Return (Some (Errorf_w c (ErrorString ''bad connection'')))) \<and>
   fst (queryAnyRows (conn_of failing_close) ''SELECT id, name FROM t'' False [])
     = Return (Inl (Errorf_w ''rows scanning''
         (ScanError 0 (ErrorString ''destination not a pointer'')))) \<and>
   \<not> errors_Is (Errorf_w ''rows scanning''
         (ScanError 0 (ErrorString ''destination not a pointer'')))
       (ErrorString ''close failed'')"
  by (simp add: WithTx_def conn_of_def failing_close_def id_name_rows_def queryAnyRows_def
      queryAnyRows_body_def rows_defs scan_rows.simps makeRs_eq reflect_Zero_def)

end
